theory Spec2Isabelle
  imports Complex_Main "HOL-Library.Sublist"
begin

section \<open>Analytics summarizer: data model\<close>

text \<open>
  The development embeds \<^verbatim>\<open>skills/analytics-summarizer/scripts/analytics_summarizer.py\<close>.
  Python integers are \<^typ>\<open>int\<close>. Python floats are idealised as \<^typ>\<open>real\<close>: every
  arithmetic operation is exact, \<^verbatim>\<open>round(x, n)\<close> rounds the exact value half-to-even
  at the \<open>n\<close>-th decimal, and no overflow to infinity or NaN occurs. Strings are byte
  strings. A leading underscore of a Python name is dropped, since an Isabelle name
  cannot start with one. Exceptions are values of the type \<open>error\<close>.
\<close>

datatype error = ZeroDivisionError | ValueError | TypeError | AttributeError

record PostMetrics =
  post_id :: string
  niche :: string
  platform :: string
  published_at :: string
  content_preview :: string
  format_type :: string
  hook_words :: string
  impressions :: int
  reach :: int
  likes :: int
  comments :: int
  shares :: int
  saves :: int
  clicks :: int
  engagement_rate :: real
  comment_rate :: real
  save_rate :: real
  share_rate :: real
  click_rate :: real
  benchmark_delta :: real
  composite_score :: real
  hashtags :: "string list"
  post_notes :: string

text \<open>The dataclass constructor: five required fields, the rest at their defaults.\<close>

definition PostMetrics_init :: "string \<Rightarrow> string \<Rightarrow> string \<Rightarrow> string \<Rightarrow> string \<Rightarrow> PostMetrics" where
  "PostMetrics_init pid n pl pub prev =
     \<lparr> post_id = pid, niche = n, platform = pl, published_at = pub,
       content_preview = prev, format_type = ''unknown'', hook_words = '''',
       impressions = 0, reach = 0, likes = 0, comments = 0, shares = 0, saves = 0,
       clicks = 0, engagement_rate = 0, comment_rate = 0, save_rate = 0,
       share_rate = 0, click_rate = 0, benchmark_delta = 0, composite_score = 0,
       hashtags = [], post_notes = '''' \<rparr>"

subsection \<open>Niche benchmarks\<close>

text \<open>
  One entry of \<^verbatim>\<open>NICHE_BENCHMARKS\<close>. The display name of a niche is left out: no
  function reads it. The dictionaries are association lists in the order of the source
  text, which is the order Python iterates them in.
\<close>

record benchmark =
  engagement_target :: real
  comment_rate_target :: real
  save_rate_target :: real
  share_rate_target :: real
  platform_scale :: "(string \<times> real) list"
  pillars :: "string list"

definition bench_ttbp :: benchmark where
  "bench_ttbp =
     \<lparr> engagement_target = 3, comment_rate_target = 5 / 10, save_rate_target = 3 / 10,
       share_rate_target = 2 / 10,
       platform_scale = [(''linkedin'', 1), (''instagram'', 14 / 10), (''twitter'', 6 / 10)],
       pillars = [''leadership'', ''career'', ''management'', ''promotion'', ''africa''] \<rparr>"

definition bench_cb :: benchmark where
  "bench_cb =
     \<lparr> engagement_target = 25 / 10, comment_rate_target = 4 / 10, save_rate_target = 4 / 10,
       share_rate_target = 3 / 10,
       platform_scale = [(''linkedin'', 1), (''instagram'', 16 / 10), (''twitter'', 7 / 10)],
       pillars = [''books'', ''literature'', ''africa'', ''culture'', ''publishing'',
                  ''chinua'', ''achebe''] \<rparr>"

definition bench_tundexai :: benchmark where
  "bench_tundexai =
     \<lparr> engagement_target = 35 / 10, comment_rate_target = 6 / 10, save_rate_target = 5 / 10,
       share_rate_target = 3 / 10,
       platform_scale = [(''linkedin'', 1), (''instagram'', 12 / 10), (''twitter'', 8 / 10)],
       pillars = [''ai'', ''claude'', ''chatgpt'', ''llm'', ''automation'', ''benchmark'',
                  ''enterprise''] \<rparr>"

definition bench_wellwithtunde :: benchmark where
  "bench_wellwithtunde =
     \<lparr> engagement_target = 2, comment_rate_target = 3 / 10, save_rate_target = 5 / 10,
       share_rate_target = 4 / 10,
       platform_scale = [(''linkedin'', 1), (''instagram'', 18 / 10), (''twitter'', 5 / 10)],
       pillars = [''wellness'', ''health'', ''mindfulness'', ''habit'', ''body'', ''nutrition'',
                  ''chronic''] \<rparr>"

definition bench_tundestalksmen :: benchmark where
  "bench_tundestalksmen =
     \<lparr> engagement_target = 25 / 10, comment_rate_target = 5 / 10, save_rate_target = 4 / 10,
       share_rate_target = 3 / 10,
       platform_scale = [(''linkedin'', 1), (''instagram'', 15 / 10), (''twitter'', 7 / 10)],
       pillars = [''men'', ''father'', ''relationship'', ''accountability'', ''brotherhood'',
                  ''faith''] \<rparr>"

definition NICHE_BENCHMARKS :: "(string \<times> benchmark) list" where
  "NICHE_BENCHMARKS =
     [(''ttbp'', bench_ttbp), (''cb'', bench_cb), (''tundexai'', bench_tundexai),
      (''wellwithtunde'', bench_wellwithtunde), (''tundestalksmen'', bench_tundestalksmen)]"

text \<open>\<^verbatim>\<open>d.get(k, default)\<close> on a dictionary kept as an association list.\<close>

definition dict_get :: "('k \<times> 'v) list \<Rightarrow> 'k \<Rightarrow> 'v \<Rightarrow> 'v" where
  "dict_get d k dflt = (case map_of d k of Some v \<Rightarrow> v | None \<Rightarrow> dflt)"

subsection \<open>Rounding\<close>

definition round_half_even :: "real \<Rightarrow> int" where
  "round_half_even x =
     (let f = \<lfloor>x\<rfloor>; d = x - of_int f
      in if d < 1 / 2 then f else if 1 / 2 < d then f + 1
         else if even f then f else f + 1)"

text \<open>\<^verbatim>\<open>round(x, n)\<close> for \<open>n \<ge> 0\<close>.\<close>

definition py_round :: "real \<Rightarrow> nat \<Rightarrow> real" where
  "py_round x n = of_int (round_half_even (x * 10 ^ n)) / 10 ^ n"

section \<open>Rate calculator\<close>

text \<open>
  \<^verbatim>\<open>a / b\<close> on two Python integers: true division, which raises on a zero divisor.
\<close>

definition truediv :: "int \<Rightarrow> int \<Rightarrow> error + real" where
  "truediv a b = (if b = 0 then Inl ZeroDivisionError else Inr (of_int a / of_int b))"

text \<open>One right-hand side of \<^verbatim>\<open>_compute_rates\<close>: \<^verbatim>\<open>round((num / base) * 100, 2)\<close>.\<close>

definition rate :: "int \<Rightarrow> int \<Rightarrow> error + real" where
  "rate num base =
     (case truediv num base of Inl e \<Rightarrow> Inl e | Inr q \<Rightarrow> Inr (py_round (q * 100) 2))"

definition compute_rates :: "PostMetrics \<Rightarrow> error + PostMetrics" where
  "compute_rates post =
     (let base = (if impressions post > 0 then impressions post else max (reach post) 1);
          total_eng = likes post + comments post + shares post + saves post
      in case rate total_eng base of Inl e \<Rightarrow> Inl e | Inr er \<Rightarrow>
         (case rate (comments post) base of Inl e \<Rightarrow> Inl e | Inr cr \<Rightarrow>
         (case rate (saves post) base of Inl e \<Rightarrow> Inl e | Inr sr \<Rightarrow>
         (case rate (shares post) base of Inl e \<Rightarrow> Inl e | Inr shr \<Rightarrow>
         (case rate (clicks post) base of Inl e \<Rightarrow> Inl e | Inr clr \<Rightarrow>
            Inr (post\<lparr> engagement_rate := er, comment_rate := cr, save_rate := sr,
                       share_rate := shr, click_rate := clr \<rparr>))))))"

section \<open>Benchmark scorer\<close>

text \<open>
  Every float division of \<^verbatim>\<open>_score_post\<close> stands under the guard
  \<^verbatim>\<open>if target > 0 else 0\<close>, so the divisor is never zero where \<open>/\<close> is evaluated.
\<close>

definition score_post :: "PostMetrics \<Rightarrow> PostMetrics" where
  "score_post post =
     (let bench = dict_get NICHE_BENCHMARKS (niche post) bench_ttbp;
          target = engagement_target bench;
          scale = dict_get (platform_scale bench) (platform post) 1;
          scaled_target = target * scale;
          eng_score = (if scaled_target > 0
                       then min 50 ((engagement_rate post / scaled_target) * 50) else 0);
          comment_score = (if comment_rate_target bench > 0
                           then min 15 ((comment_rate post / comment_rate_target bench) * 15)
                           else 0);
          save_score = (if save_rate_target bench > 0
                        then min 15 ((save_rate post / save_rate_target bench) * 15) else 0);
          share_score = (if share_rate_target bench > 0
                         then min 10 ((share_rate post / share_rate_target bench) * 10) else 0);
          click_score = min 10 (click_rate post * 5)
      in post\<lparr> composite_score :=
                  py_round (eng_score + comment_score + save_score + share_score + click_score) 1,
                benchmark_delta := py_round (engagement_rate post - scaled_target) 2 \<rparr>)"

text \<open>
  Every parser ends with \<^verbatim>\<open>posts.append(_score_post(_compute_rates(p)))\<close>.
\<close>

definition rate_and_score :: "PostMetrics \<Rightarrow> error + PostMetrics" where
  "rate_and_score p = (case compute_rates p of Inl e \<Rightarrow> Inl e | Inr q \<Rightarrow> Inr (score_post q))"

section \<open>Niche aggregator\<close>

subsection \<open>Helpers of the Python library\<close>

text \<open>
  \<^verbatim>\<open>statistics.mean\<close> and \<^verbatim>\<open>statistics.median\<close>. Both raise on an empty list; every
  call of the source passes a list it has just found non-empty, so that case is not
  modelled.
\<close>

definition mean :: "real list \<Rightarrow> real" where
  "mean xs = sum_list xs / of_nat (length xs)"

definition median :: "real list \<Rightarrow> real" where
  "median xs =
     (let s = sort xs; n = length s
      in if odd n then s ! (n div 2) else (s ! (n div 2 - 1) + s ! (n div 2)) / 2)"

text \<open>
  \<^verbatim>\<open>max(it, key=f)\<close> and \<^verbatim>\<open>min(it, key=f)\<close> on a non-empty iterable, given as its first
  element and the rest: the first extremal element wins, a later one replaces it only when
  strictly better.
\<close>

fun max_first :: "('a \<Rightarrow> 'b::linorder) \<Rightarrow> 'a \<Rightarrow> 'a list \<Rightarrow> 'a" where
  "max_first key best [] = best"
| "max_first key best (x # xs) = max_first key (if key best < key x then x else best) xs"

fun min_first :: "('a \<Rightarrow> 'b::linorder) \<Rightarrow> 'a \<Rightarrow> 'a list \<Rightarrow> 'a" where
  "min_first key best [] = best"
| "min_first key best (x # xs) = min_first key (if key x < key best then x else best) xs"

text \<open>
  \<^verbatim>\<open>d.setdefault(k, []).append(v)\<close> on a dictionary of lists, kept as an association list
  in insertion order.
\<close>

fun setdefault_append :: "('k \<times> 'v list) list \<Rightarrow> 'k \<Rightarrow> 'v \<Rightarrow> ('k \<times> 'v list) list" where
  "setdefault_append [] k v = [(k, [v])]"
| "setdefault_append ((k', vs) # d) k v =
     (if k = k' then (k', vs @ [v]) # d else (k', vs) # setdefault_append d k v)"

text \<open>
  The loop \<^verbatim>\<open>for p in posts: fmt_eng.setdefault(p.format_type, []).append(p.engagement_rate)\<close>
  of \<^verbatim>\<open>_analyze_formats\<close> and \<^verbatim>\<open>_detect_patterns\<close>.
\<close>

definition fmt_eng_of :: "PostMetrics list \<Rightarrow> (string \<times> real list) list" where
  "fmt_eng_of posts =
     fold (\<lambda>p d. setdefault_append d (format_type p) (engagement_rate p)) posts []"

subsection \<open>Format breakdown\<close>

definition analyze_formats :: "PostMetrics list \<Rightarrow> (string \<times> real) list \<times> string \<times> string" where
  "analyze_formats posts =
     (let breakdown = map (\<lambda>(fmt, rates). (fmt, py_round (mean rates) 2)) (fmt_eng_of posts)
      in case breakdown of
           [] \<Rightarrow> ([], ''unknown'', ''unknown'')
         | kv # rest \<Rightarrow>
             (breakdown, fst (max_first snd kv rest), fst (min_first snd kv rest)))"

subsection \<open>Pattern detector\<close>

text \<open>
  A finding of \<^verbatim>\<open>_detect_patterns\<close>. The source renders each one as an f-string; the
  model keeps the rule that fired and the values the string is built from (float
  formatting is not modelled): a format above the others (format, its mean, the mean of
  the others), a format below the others, the dominant format of the high-save posts, of
  the posts that drive comments, and of the low performers.
\<close>

datatype finding =
    FormatAbove string real real
  | FormatBelow string real real
  | HighSave string
  | HighComment string
  | LowPerformers string

text \<open>
  \<^verbatim>\<open>max(set(formats), key=formats.count)\<close>. The order in which Python iterates over a set
  of strings depends on their hashes, which the program does not fix; \<open>set_iter\<close> gives
  that order for the elements of a list. It is never empty where the source calls it, so
  the empty case stands for nothing the source does.
\<close>

definition dominant :: "(string list \<Rightarrow> string list) \<Rightarrow> string list \<Rightarrow> string" where
  "dominant set_iter formats =
     (case set_iter formats of
        [] \<Rightarrow> []
      | x # xs \<Rightarrow> max_first (count_list formats) x xs)"

text \<open>The body of the loop over \<^verbatim>\<open>fmt_eng.items()\<close>: zero or one finding per format.\<close>

definition format_gap :: "(string \<times> real list) list \<Rightarrow> string \<times> real list \<Rightarrow> finding list" where
  "format_gap fmt_eng entry =
     (let fmt = fst entry; avg = mean (snd entry);
          others = concat (map snd (filter (\<lambda>kv. fst kv \<noteq> fmt) fmt_eng))
      in if others \<noteq> [] then
           (let others_avg = mean others
            in if avg > others_avg * (15 / 10) then [FormatAbove fmt avg others_avg]
               else if avg < others_avg * (7 / 10) then [FormatBelow fmt avg others_avg]
               else [])
         else [])"

definition detect_patterns :: "(string list \<Rightarrow> string list) \<Rightarrow> PostMetrics list \<Rightarrow> finding list" where
  "detect_patterns set_iter posts =
     (if posts = [] then []
      else
        (let fmt_eng = fmt_eng_of posts;
             patterns1 = concat (map (format_gap fmt_eng) fmt_eng);
             high_save = filter (\<lambda>p. save_rate p > 5 / 10) posts;
             patterns2 = patterns1 @
               (if length high_save \<ge> 2
                then [HighSave (dominant set_iter (map format_type high_save))] else []);
             high_comment = filter (\<lambda>p. comment_rate p > 5 / 10) posts;
             patterns3 = patterns2 @
               (if high_comment \<noteq> []
                then [HighComment (dominant set_iter (map format_type high_comment))] else []);
             low = filter (\<lambda>p. benchmark_delta p < - (15 / 10)) posts;
             patterns4 = patterns3 @
               (if length low \<ge> 2
                then [LowPerformers (dominant set_iter (map format_type low))] else [])
         in take 5 patterns4))"

text \<open>The rule a finding comes from, numbered in the order of the source text.\<close>

fun rule_of :: "finding \<Rightarrow> nat" where
  "rule_of (FormatAbove f a b) = 1"
| "rule_of (FormatBelow f a b) = 1"
| "rule_of (HighSave f) = 2"
| "rule_of (HighComment f) = 3"
| "rule_of (LowPerformers f) = 4"

fun format_of :: "finding \<Rightarrow> string" where
  "format_of (FormatAbove f a b) = f"
| "format_of (FormatBelow f a b) = f"
| "format_of (HighSave f) = f"
| "format_of (HighComment f) = f"
| "format_of (LowPerformers f) = f"

subsection \<open>One niche on one platform\<close>

text \<open>
  \<^verbatim>\<open>NichePerformance\<close>. The fields \<^verbatim>\<open>niche\<close> and \<^verbatim>\<open>platform\<close> carry the prefix
  \<open>perf_\<close>, since \<open>PostMetrics\<close> has fields of these names. Left out are the fields that
  the source computes with the calendar (\<^verbatim>\<open>period_start\<close>, \<^verbatim>\<open>period_end\<close>,
  \<^verbatim>\<open>timing_insights\<close>, \<^verbatim>\<open>best_day\<close>, \<^verbatim>\<open>best_hour\<close>) and \<^verbatim>\<open>hashtag_performance\<close>;
  no other field is computed from them, except the recommendations, see below.
\<close>

record NichePerformance =
  perf_niche :: string
  perf_platform :: string
  post_count :: nat
  avg_engagement_rate :: real
  median_engagement_rate :: real
  benchmark_target :: real
  benchmark_status :: string
  top_performers :: "PostMetrics list"
  bottom_performers :: "PostMetrics list"
  format_breakdown :: "(string \<times> real) list"
  best_format :: string
  worst_format :: string
  patterns :: "finding list"
  recommendations :: "string list"
  trend :: string
  trend_delta :: real

text \<open>
  \<^verbatim>\<open>_analyze_niche\<close>; \<open>None\<close> when no post is of the niche and platform.
  \<^verbatim>\<open>sorted(filtered, key=..., reverse=True)\<close> is a stable sort in descending order:
  posts of equal score keep their order, as \<^const>\<open>sort_key\<close> on the negated score does.
  \<^verbatim>\<open>sorted_posts[-3:][::-1]\<close> is the last three (all, if fewer) reversed.
  \<^verbatim>\<open>_build_niche_recommendations\<close> builds texts with float formatting from the
  performance and the posts; it is the parameter \<open>build_recs\<close>.
\<close>

definition analyze_niche ::
  "(string list \<Rightarrow> string list) \<Rightarrow> (NichePerformance \<Rightarrow> PostMetrics list \<Rightarrow> string list)
     \<Rightarrow> PostMetrics list \<Rightarrow> string \<Rightarrow> string \<Rightarrow> NichePerformance option" where
  "analyze_niche set_iter build_recs posts n pl =
     (let filtered = filter (\<lambda>p. niche p = n \<and> platform p = pl) posts
      in if filtered = [] then None
         else
           (let bench = dict_get NICHE_BENCHMARKS n bench_ttbp;
                scale = dict_get (platform_scale bench) pl 1;
                target = engagement_target bench * scale;
                sorted_posts = sort_key (\<lambda>p. - composite_score p) filtered;
                avg_eng = py_round (mean (map engagement_rate filtered)) 2;
                med_eng = py_round (median (map engagement_rate filtered)) 2;
                status = (if avg_eng \<ge> target then ''ABOVE''
                          else if avg_eng \<ge> target * (85 / 100) then ''MEETING''
                          else ''BELOW'');
                fmts = analyze_formats filtered;
                perf = \<lparr> perf_niche = n, perf_platform = pl,
                         post_count = length filtered,
                         avg_engagement_rate = avg_eng,
                         median_engagement_rate = med_eng,
                         benchmark_target = py_round target 2,
                         benchmark_status = status,
                         top_performers = take 3 sorted_posts,
                         bottom_performers = rev (drop (length sorted_posts - 3) sorted_posts),
                         format_breakdown = fst fmts,
                         best_format = fst (snd fmts),
                         worst_format = snd (snd fmts),
                         patterns = detect_patterns set_iter filtered,
                         recommendations = [],
                         trend = ''STABLE'',
                         trend_delta = 0 \<rparr>
            in Some (perf\<lparr> recommendations := build_recs perf filtered \<rparr>)))"

section \<open>Period filter\<close>

text \<open>
  A naive \<^verbatim>\<open>datetime\<close> is the number of microseconds since the start of year 1, and
  \<^verbatim>\<open>timedelta(days=n)\<close> is \<open>n\<close> days in microseconds.
\<close>

definition timedelta_days :: "int \<Rightarrow> int" where
  "timedelta_days n = n * 86400000000"

text \<open>
  What \<^verbatim>\<open>datetime.fromisoformat\<close> does with a string: it raises \<open>ValueError\<close>, or returns
  a naive datetime, or returns an aware one (a string with a UTC offset). The function
  itself belongs to the Python library and reads more forms in newer versions, so the
  filter takes it as the parameter \<open>fromisoformat\<close>.
\<close>

datatype parsed = Unparseable | Naive int | Aware int

text \<open>\<^verbatim>\<open>s.split("T")[0]\<close>: the part of \<open>s\<close> before the first \<open>T\<close>.\<close>

definition split_T :: "string \<Rightarrow> string" where
  "split_T s = takeWhile (\<lambda>c. c \<noteq> CHR ''T'') s"

text \<open>
  The body of the loop of \<^verbatim>\<open>_filter_by_period\<close>: whether the post is appended to the
  result. An unparseable date is caught and the post kept. Comparing an aware datetime
  with the naive cutoff raises \<open>TypeError\<close>, which the \<^verbatim>\<open>except\<close> clause does not catch.
  (\<open>published_at\<close> is a string here, so the \<open>AttributeError\<close> of the clause, for a value
  without \<^verbatim>\<open>split\<close>, does not arise; the source keeps such a post as well.)
\<close>

definition keeps :: "(string \<Rightarrow> parsed) \<Rightarrow> int \<Rightarrow> PostMetrics \<Rightarrow> error + bool" where
  "keeps fromisoformat cutoff p =
     (case fromisoformat (split_T (published_at p)) of
        Unparseable \<Rightarrow> Inr True
      | Naive dt \<Rightarrow> Inr (dt \<ge> cutoff)
      | Aware dt \<Rightarrow> Inl TypeError)"

fun filter_loop :: "(string \<Rightarrow> parsed) \<Rightarrow> int \<Rightarrow> PostMetrics list \<Rightarrow> error + PostMetrics list" where
  "filter_loop fromisoformat cutoff [] = Inr []"
| "filter_loop fromisoformat cutoff (p # ps) =
     (case keeps fromisoformat cutoff p of
        Inl e \<Rightarrow> Inl e
      | Inr k \<Rightarrow>
          (case filter_loop fromisoformat cutoff ps of
             Inl e \<Rightarrow> Inl e
           | Inr result \<Rightarrow> Inr (if k then p # result else result)))"

text \<open>
  \<^verbatim>\<open>_filter_by_period\<close>, with the value of \<^verbatim>\<open>datetime.now()\<close> as the parameter \<open>now\<close>.
  Every period other than \<open>all\<close> and \<open>week\<close> is treated as a month.
\<close>

definition filter_by_period ::
  "(string \<Rightarrow> parsed) \<Rightarrow> int \<Rightarrow> PostMetrics list \<Rightarrow> string \<Rightarrow> error + PostMetrics list" where
  "filter_by_period fromisoformat now posts period =
     (if period = ''all'' then Inr posts
      else
        (let cutoff = now - (if period = ''week'' then timedelta_days 7 else timedelta_days 30)
         in case filter_loop fromisoformat cutoff posts of
              Inl e \<Rightarrow> Inl e
            | Inr result \<Rightarrow> Inr (if result = [] then posts else result)))"

subsection \<open>A parser for calendar dates\<close>

text \<open>
  An instance of \<open>fromisoformat\<close> for the examples: it reads the form \<open>YYYY-MM-DD\<close>, as
  every version of \<^verbatim>\<open>datetime.fromisoformat\<close> does, to midnight of that day in the
  proleptic Gregorian calendar, and rejects every other string.
\<close>

definition digit_val :: "char \<Rightarrow> nat option" where
  "digit_val c =
     (let n = (of_char c :: nat) in if 48 \<le> n \<and> n \<le> 57 then Some (n - 48) else None)"

fun digits_val :: "string \<Rightarrow> nat option" where
  "digits_val [] = None"
| "digits_val [c] = digit_val c"
| "digits_val (c # cs) =
     (case digit_val c of
        None \<Rightarrow> None
      | Some d \<Rightarrow> (case digits_val cs of None \<Rightarrow> None | Some r \<Rightarrow> Some (d * 10 ^ length cs + r)))"

definition is_leap :: "nat \<Rightarrow> bool" where
  "is_leap y = (y mod 4 = 0 \<and> (y mod 100 \<noteq> 0 \<or> y mod 400 = 0))"

definition days_in_month :: "nat \<Rightarrow> nat \<Rightarrow> nat" where
  "days_in_month y m =
     (if m = 2 then (if is_leap y then 29 else 28)
      else if m = 4 \<or> m = 6 \<or> m = 9 \<or> m = 11 then 30 else 31)"

definition days_before_year :: "nat \<Rightarrow> nat" where
  "days_before_year y = (y - 1) * 365 + (y - 1) div 4 - (y - 1) div 100 + (y - 1) div 400"

definition days_before_month :: "nat \<Rightarrow> nat \<Rightarrow> nat" where
  "days_before_month y m = sum_list (map (days_in_month y) [1..<m])"

definition fromisoformat_date :: "string \<Rightarrow> parsed" where
  "fromisoformat_date s =
     (if length s = 10 \<and> s ! 4 = CHR ''-'' \<and> s ! 7 = CHR ''-'' then
        (case (digits_val (take 4 s), digits_val (take 2 (drop 5 s)), digits_val (drop 8 s)) of
           (Some y, Some m, Some d) \<Rightarrow>
             if 1 \<le> y \<and> 1 \<le> m \<and> m \<le> 12 \<and> 1 \<le> d \<and> d \<le> days_in_month y m
             then Naive (int (days_before_year y + days_before_month y m + (d - 1)) * 86400000000)
             else Unparseable
         | _ \<Rightarrow> Unparseable)
      else Unparseable)"

section \<open>History file\<close>

text \<open>
  What \<^verbatim>\<open>_save_to_history\<close> finds at \<^verbatim>\<open>HISTORY_FILE\<close>: no file, a file that cannot be
  read as JSON (the source then starts from an empty history), or the list of entries
  that earlier runs wrote, one flattened \<open>PostMetrics\<close> each. A file of other JSON content
  makes the source raise before it writes and is not modelled.
\<close>

datatype history_file = Missing | Unreadable | Entries "PostMetrics list"

text \<open>\<^verbatim>\<open>_save_to_history\<close>: the list of entries it writes to the file.\<close>

definition save_to_history :: "history_file \<Rightarrow> PostMetrics list \<Rightarrow> PostMetrics list" where
  "save_to_history file posts =
     (let history = (case file of Entries h \<Rightarrow> h | _ \<Rightarrow> []);
          existing_ids = set (map post_id history);
          new_posts = filter (\<lambda>p. post_id p \<notin> existing_ids) posts
      in history @ new_posts)"

section \<open>Competitors and the overall recommendations\<close>

text \<open>
  One entry of the competitor file, as \<^verbatim>\<open>_compare_competitors\<close> reads it with
  \<^verbatim>\<open>comp.get\<close>: \<open>None\<close> is a missing key. The two rates are the floats that
  \<^verbatim>\<open>_safe_float\<close> returns for the entry's values; how it parses text is not modelled.
\<close>

record competitor =
  c_name :: "string option"
  c_platform :: "string option"
  c_avg_engagement_rate :: "real option"
  c_top_topic :: "string option"
  c_top_topic_engagement :: "real option"

text \<open>
  \<^verbatim>\<open>CompetitorInsight\<close>; the fields \<^verbatim>\<open>name\<close>, \<^verbatim>\<open>platform\<close>, \<^verbatim>\<open>avg_engagement_rate\<close>,
  \<^verbatim>\<open>top_topic\<close> and \<^verbatim>\<open>top_topic_engagement\<close> carry the prefix \<open>ci_\<close>.
\<close>

record CompetitorInsight =
  ci_name :: string
  ci_platform :: string
  ci_avg_engagement_rate :: real
  delta_vs_ours :: real
  ci_top_topic :: string
  ci_top_topic_engagement :: real
  suggested_response :: string

text \<open>The em dash of the source texts, in UTF-8.\<close>

definition em_dash :: string where
  "em_dash = [CHR 0xE2, CHR 0x80, CHR 0x94]"

text \<open>
  The suggestion of \<^verbatim>\<open>_compare_competitors\<close> for one competitor. \<open>fmt_1f\<close> is the float
  formatting \<^verbatim>\<open>{x:.1f}\<close> of the Python library.
\<close>

definition suggestion_for :: "(real \<Rightarrow> string) \<Rightarrow> real \<Rightarrow> string \<Rightarrow> string" where
  "suggestion_for fmt_1f delta top_topic =
     (if delta > 5 / 10 then
        ''They outperform on '' @ [CHR 0x27] @ top_topic @ [CHR 0x27] @ '' '' @ em_dash
          @ '' consider a response or adjacent take''
      else if delta < - (5 / 10) then
        ''We outperform them ('' @ fmt_1f \<bar>delta\<bar> @ ''pp ahead) '' @ em_dash
          @ '' maintain content quality''
      else
        ''Comparable performance '' @ em_dash
          @ '' differentiate by doubling down on unique angles'')"

definition compare_competitors ::
  "(real \<Rightarrow> string) \<Rightarrow> PostMetrics list \<Rightarrow> competitor list \<Rightarrow> CompetitorInsight list" where
  "compare_competitors fmt_1f our_posts competitor_data =
     (let our_avg = (if our_posts \<noteq> [] then mean (map engagement_rate our_posts) else 0)
      in map (\<lambda>cmp.
            (let their_avg = (case c_avg_engagement_rate cmp of Some x \<Rightarrow> x | None \<Rightarrow> 0);
                 delta = py_round (their_avg - our_avg) 2;
                 top_topic = (case c_top_topic cmp of Some t \<Rightarrow> t | None \<Rightarrow> []);
                 top_topic_eng = (case c_top_topic_engagement cmp of Some x \<Rightarrow> x | None \<Rightarrow> 0)
             in \<lparr> ci_name = (case c_name cmp of Some n \<Rightarrow> n | None \<Rightarrow> ''Competitor''),
                  ci_platform = (case c_platform cmp of Some p \<Rightarrow> p | None \<Rightarrow> ''linkedin''),
                  ci_avg_engagement_rate = their_avg,
                  delta_vs_ours = delta,
                  ci_top_topic = top_topic,
                  ci_top_topic_engagement = top_topic_eng,
                  suggested_response = suggestion_for fmt_1f delta top_topic \<rparr>))
          competitor_data)"

text \<open>
  The two loops of \<^verbatim>\<open>summarize_week\<close> that build \<^verbatim>\<open>all_recs\<close>, on the state
  \<^verbatim>\<open>(all_recs, seen_recs)\<close>. The first loop adds each new recommendation to the list
  and to the set; the second adds a competitor's suggestion to the list when it is not
  in the set, and leaves the set as it is. (The loop variable \<^verbatim>\<open>comp\<close> of the source
  is \<open>cmp\<close> here.)
\<close>

definition add_rec :: "string \<Rightarrow> string list \<times> string set \<Rightarrow> string list \<times> string set" where
  "add_rec rec st =
     (if rec \<notin> snd st then (fst st @ [rec], insert rec (snd st)) else st)"

definition add_suggestion ::
  "CompetitorInsight \<Rightarrow> string list \<times> string set \<Rightarrow> string list \<times> string set" where
  "add_suggestion cmp st =
     (let suggestion = ''[competitor] '' @ suggested_response cmp
      in if suggestion \<notin> snd st then (fst st @ [suggestion], snd st) else st)"

text \<open>\<^verbatim>\<open>overall_recommendations=all_recs[:8]\<close> of the brief.\<close>

definition overall_recommendations ::
  "NichePerformance list \<Rightarrow> CompetitorInsight list \<Rightarrow> string list" where
  "overall_recommendations performances competitor_insights =
     (let st1 = fold (\<lambda>perf st. fold add_rec (recommendations perf) st) performances ([], {});
          st2 = fold add_suggestion competitor_insights st1
      in take 8 (fst st2))"

section \<open>Record normalizer for ContentStudio rows\<close>

subsection \<open>Values of a row\<close>

text \<open>
  A value that a row of the JSON export holds under a key: \<^verbatim>\<open>None\<close>, a boolean, an
  integer, a string, or a value of another type (a float, a list, a dictionary), which is
  given by the text that \<^verbatim>\<open>str()\<close> returns for it; nothing else of such a value is used
  where the source succeeds.
\<close>

datatype pyval = PNone | PBool bool | PInt int | PStr string | POther string

text \<open>
  A row (\<^verbatim>\<open>item\<close>). The source stores the values under \<^verbatim>\<open>niche\<close> and \<^verbatim>\<open>hashtags\<close> in
  the post as they are, in fields annotated \<^verbatim>\<open>str\<close> and \<^verbatim>\<open>list[str]\<close>; the model keeps
  these two entries apart, with the annotated types (\<open>None\<close>: the key is missing, or null
  for the niche). Every other entry is in \<open>entries\<close>.
\<close>

record cs_item =
  entries :: "string \<rightharpoonup> pyval"
  niche_entry :: "string option"
  hashtags_entry :: "string list option"

text \<open>\<^verbatim>\<open>item.get(k, default)\<close>.\<close>

definition item_get :: "cs_item \<Rightarrow> string \<Rightarrow> pyval \<Rightarrow> pyval" where
  "item_get item k dflt = (case entries item k of Some v \<Rightarrow> v | None \<Rightarrow> dflt)"

subsection \<open>Strings and integers of the Python library, on ASCII\<close>

text \<open>
  The decimal text of an integer, \<^verbatim>\<open>str(n)\<close>.
\<close>

function nat_str :: "nat \<Rightarrow> string" where
  "nat_str n = (if n < 10 then [char_of (48 + n)] else nat_str (n div 10) @ [char_of (48 + n mod 10)])"
  by pat_completeness auto
termination
  by (relation "measure id") auto

declare nat_str.simps [simp del]

definition int_str :: "int \<Rightarrow> string" where
  "int_str i = (if i < 0 then CHR ''-'' # nat_str (nat (- i)) else nat_str (nat i))"

fun py_str :: "pyval \<Rightarrow> string" where
  "py_str PNone = ''None''"
| "py_str (PBool b) = (if b then ''True'' else ''False'')"
| "py_str (PInt i) = int_str i"
| "py_str (PStr s) = s"
| "py_str (POther s) = s"

text \<open>
  \<^verbatim>\<open>s.strip()\<close> removes the white space at both ends; on ASCII these are the characters
  9 to 13 and 28 to 32. \<^verbatim>\<open>s.lower()\<close> maps \<open>A\<close> to \<open>Z\<close> to lower case. (On text beyond
  ASCII Python knows more white space and more letters; the bytes of such text are left
  as they are here.)
\<close>

definition is_space :: "char \<Rightarrow> bool" where
  "is_space c = (let n = (of_char c :: nat) in (9 \<le> n \<and> n \<le> 13) \<or> (28 \<le> n \<and> n \<le> 32))"

definition strip :: "string \<Rightarrow> string" where
  "strip s = rev (dropWhile is_space (rev (dropWhile is_space s)))"

definition lower :: "string \<Rightarrow> string" where
  "lower s = map (\<lambda>c. let n = (of_char c :: nat) in if 65 \<le> n \<and> n \<le> 90 then char_of (n + 32) else c) s"

text \<open>
  \<^verbatim>\<open>int(s)\<close> on a stripped string: an optional sign, then decimal digits, where single
  underscores may stand between digits. \<open>None\<close> is the \<open>ValueError\<close>. (Python also
  refuses very long digit strings and accepts digits beyond ASCII; neither is modelled.)
\<close>

fun digits_from :: "nat \<Rightarrow> string \<Rightarrow> nat option" where
  "digits_from acc [] = Some acc"
| "digits_from acc [c] =
     (case digit_val c of Some d \<Rightarrow> Some (acc * 10 + d) | None \<Rightarrow> None)"
| "digits_from acc (c # c' # cs) =
     (case digit_val c of
        Some d \<Rightarrow> digits_from (acc * 10 + d) (c' # cs)
      | None \<Rightarrow>
          if c = CHR ''_'' then
            (case digit_val c' of Some d \<Rightarrow> digits_from (acc * 10 + d) cs | None \<Rightarrow> None)
          else None)"

definition py_nat :: "string \<Rightarrow> nat option" where
  "py_nat s =
     (case s of
        [] \<Rightarrow> None
      | c # cs \<Rightarrow> (case digit_val c of Some d \<Rightarrow> digits_from d cs | None \<Rightarrow> None))"

definition py_int :: "string \<Rightarrow> int option" where
  "py_int s =
     (case s of
        [] \<Rightarrow> None
      | c # cs \<Rightarrow>
          if c = CHR ''-'' then map_option (\<lambda>n. - int n) (py_nat cs)
          else if c = CHR ''+'' then map_option int (py_nat cs)
          else map_option int (py_nat s))"

text \<open>
  The \<^verbatim>\<open>try\<close> block of \<^verbatim>\<open>_safe_int\<close>: \<^verbatim>\<open>int(str(val).replace(",", "").strip())\<close>, where
  \<open>None\<close> is the \<open>ValueError\<close> of \<^verbatim>\<open>int\<close>. A value with this outcome is malformed.
\<close>

definition int_text :: "pyval \<Rightarrow> int option" where
  "int_text val = py_int (strip (filter (\<lambda>c. c \<noteq> CHR '','') (py_str val)))"

text \<open>\<^verbatim>\<open>_safe_int\<close>: the \<^verbatim>\<open>except\<close> clause returns 0.\<close>

definition safe_int :: "pyval \<Rightarrow> int" where
  "safe_int val = (case int_text val of Some n \<Rightarrow> n | None \<Rightarrow> 0)"

subsection \<open>Niche and hook\<close>

text \<open>\<^verbatim>\<open>sub in text\<close> on strings.\<close>

fun contains_str :: "string \<Rightarrow> string \<Rightarrow> bool" where
  "contains_str sub [] = (sub = [])"
| "contains_str sub (c # cs) = (prefix sub (c # cs) \<or> contains_str sub cs)"

text \<open>
  \<^verbatim>\<open>_detect_niche\<close>: the niche with the most pillar words in the text, the first such
  niche of the table on a tie, and \<open>ttbp\<close> when no pillar word occurs.
\<close>

definition detect_niche :: "string \<Rightarrow> string" where
  "detect_niche content =
     (let text = lower content;
          scores = filter (\<lambda>ns. snd ns > 0)
                     (map (\<lambda>(n, config).
                            (n, length (filter (\<lambda>pillar. contains_str pillar text) (pillars config))))
                        NICHE_BENCHMARKS)
      in case scores of
           [] \<Rightarrow> ''ttbp''
         | s # rest \<Rightarrow> fst (max_first snd s rest))"

text \<open>\<^verbatim>\<open>s.split("\n")\<close>.\<close>

fun split_lines :: "string \<Rightarrow> string list" where
  "split_lines [] = [[]]"
| "split_lines (c # cs) =
     (if c = CHR 0x0A then [] # split_lines cs
      else (case split_lines cs of
              l # ls \<Rightarrow> (c # l) # ls
            | [] \<Rightarrow> [[c]]))"

definition extract_hook :: "string \<Rightarrow> string" where
  "extract_hook content =
     (let lines = map strip (filter (\<lambda>ln. strip ln \<noteq> []) (split_lines content))
      in case lines of
           l # ls \<Rightarrow> take 120 l
         | [] \<Rightarrow> take 120 content)"

subsection \<open>One row\<close>

text \<open>
  The body of the loop of \<^verbatim>\<open>_parse_contentstudio_json\<close>. \<^verbatim>\<open>_detect_format\<close> matches
  regular expressions and is the parameter \<open>detect_format\<close>. Where the value taken for the
  content or for the platform is not a string, the source raises: \<open>AttributeError\<close> from
  \<^verbatim>\<open>content.lower()\<close> in \<^verbatim>\<open>_detect_niche\<close> (called when the row gives no niche) and from
  \<^verbatim>\<open>.lower()\<close> on the platform, \<open>TypeError\<close> from \<^verbatim>\<open>content[:120]\<close> or from the
  regular-expression search.
\<close>

definition parse_contentstudio_item :: "(string \<Rightarrow> string) \<Rightarrow> cs_item \<Rightarrow> error + PostMetrics" where
  "parse_contentstudio_item detect_format item =
     (let content = item_get item ''message''
                      (item_get item ''content'' (item_get item ''caption'' (PStr [])));
          given = (case niche_entry item of Some n \<Rightarrow> if n \<noteq> [] then Some n else None
                                         | None \<Rightarrow> None);
          niche_result = (case given of
                            Some n \<Rightarrow> Inr n
                          | None \<Rightarrow> (case content of
                                       PStr c \<Rightarrow> Inr (detect_niche c)
                                     | _ \<Rightarrow> Inl AttributeError));
          platform_val = item_get item ''platform''
                           (item_get item ''social_account_type'' (PStr ''linkedin''))
      in case niche_result of
           Inl e \<Rightarrow> Inl e
         | Inr n \<Rightarrow>
             (case platform_val of
                PStr pl \<Rightarrow>
                  (case content of
                     PStr c \<Rightarrow>
                       rate_and_score
                         \<lparr> post_id = py_str (item_get item ''id'' (item_get item ''post_id'' (PStr []))),
                           niche = n,
                           platform = lower pl,
                           published_at = py_str (item_get item ''published_at''
                                                    (item_get item ''created_at'' (PStr []))),
                           content_preview = take 120 c,
                           format_type = detect_format c,
                           hook_words = extract_hook c,
                           impressions = safe_int (item_get item ''impressions''
                                                     (item_get item ''reach'' (PInt 0))),
                           reach = safe_int (item_get item ''reach'' (PInt 0)),
                           likes = safe_int (item_get item ''likes''
                                               (item_get item ''reactions'' (PInt 0))),
                           comments = safe_int (item_get item ''comments'' (PInt 0)),
                           shares = safe_int (item_get item ''shares''
                                                (item_get item ''reposts'' (PInt 0))),
                           saves = safe_int (item_get item ''saves''
                                               (item_get item ''bookmarks'' (PInt 0))),
                           clicks = safe_int (item_get item ''link_clicks''
                                                (item_get item ''clicks'' (PInt 0))),
                           engagement_rate = 0, comment_rate = 0, save_rate = 0,
                           share_rate = 0, click_rate = 0, benchmark_delta = 0,
                           composite_score = 0,
                           hashtags = (case hashtags_entry item of Some h \<Rightarrow> h | None \<Rightarrow> []),
                           post_notes = [] \<rparr>
                   | _ \<Rightarrow> Inl TypeError)
              | _ \<Rightarrow> Inl AttributeError))"

text \<open>
  \<^verbatim>\<open>_parse_contentstudio_json\<close> on the list of rows (the export itself, or its entry
  \<^verbatim>\<open>data\<close> or \<^verbatim>\<open>posts\<close>): the first row that raises ends the loop.
\<close>

fun parse_contentstudio_json :: "(string \<Rightarrow> string) \<Rightarrow> cs_item list \<Rightarrow> error + PostMetrics list" where
  "parse_contentstudio_json detect_format [] = Inr []"
| "parse_contentstudio_json detect_format (item # items) =
     (case parse_contentstudio_item detect_format item of
        Inl e \<Rightarrow> Inl e
      | Inr p \<Rightarrow>
          (case parse_contentstudio_json detect_format items of
             Inl e \<Rightarrow> Inl e
           | Inr ps \<Rightarrow> Inr (p # ps)))"

section \<open>Inputs of the scenario of three LinkedIn posts\<close>

text \<open>
  A LinkedIn post of niche \<open>ttbp\<close> with 1000 impressions, 5 comments and the given number
  of likes; every other counter is zero.
\<close>

definition scenario_post :: "string \<Rightarrow> int \<Rightarrow> PostMetrics" where
  "scenario_post pid l =
     (PostMetrics_init pid ''ttbp'' ''linkedin'' '''' '''')
       \<lparr> impressions := 1000, likes := l, comments := 5 \<rparr>"

section \<open>Example rows of a ContentStudio export\<close>

text \<open>
  A row with the text \<open>hello\<close>, no platform, \<^verbatim>\<open>"impressions": "abc"\<close>,
  \<^verbatim>\<open>"likes": "1,200"\<close> and \<^verbatim>\<open>"comments": null\<close>.
\<close>

definition row_malformed :: cs_item where
  "row_malformed =
     \<lparr> entries = map_of [(''message'', PStr ''hello''), (''impressions'', PStr ''abc''),
                           (''likes'', PStr ''1,200''), (''comments'', PNone)],
       niche_entry = None, hashtags_entry = None \<rparr>"

text \<open>
  A row with the text \<open>hello\<close>, \<^verbatim>\<open>"platform": "TikTok"\<close> and \<^verbatim>\<open>"reach": 500\<close>, and no
  entry for the impressions.
\<close>

definition row_tiktok :: cs_item where
  "row_tiktok =
     \<lparr> entries = map_of [(''message'', PStr ''hello''), (''platform'', PStr ''TikTok''),
                           (''reach'', PInt 500)],
       niche_entry = None, hashtags_entry = None \<rparr>"

section \<open>Properties of rounding and of the benchmark table\<close>

lemma dict_get_simps:
  "dict_get [] k d = d"
  "dict_get ((k', v) # xs) k d = (if k = k' then v else dict_get xs k d)"
  by (simp_all add: dict_get_def)

lemma round_half_even_floor_le: "\<lfloor>x\<rfloor> \<le> round_half_even x"
  by (simp add: round_half_even_def Let_def)

lemma round_half_even_le_ceil: "round_half_even x \<le> \<lfloor>x\<rfloor> + 1"
  by (simp add: round_half_even_def Let_def)

lemma round_half_even_mono:
  assumes "x \<le> y"
  shows "round_half_even x \<le> round_half_even y"
proof (cases "\<lfloor>x\<rfloor> = \<lfloor>y\<rfloor>")
  case True
  with assms show ?thesis by (auto simp: round_half_even_def Let_def)
next
  case False
  with assms have "\<lfloor>x\<rfloor> < \<lfloor>y\<rfloor>" by (simp add: floor_mono order.strict_iff_order)
  then have "round_half_even x \<le> \<lfloor>y\<rfloor>" using round_half_even_le_ceil [of x] by linarith
  then show ?thesis using round_half_even_floor_le [of y] by linarith
qed

lemma round_half_even_of_int: "round_half_even (of_int k) = k"
  by (simp add: round_half_even_def)

lemma py_round_mono: "x \<le> y \<Longrightarrow> py_round x n \<le> py_round y n"
  by (simp add: py_round_def divide_right_mono round_half_even_mono)

lemma py_round_0: "py_round 0 n = 0"
  using round_half_even_of_int [of 0] by (simp add: py_round_def)

lemma py_round_100: "py_round 100 1 = 100"
  using round_half_even_of_int [of 1000] by (simp add: py_round_def)

lemma bench_targets_pos:
  "0 < engagement_target (dict_get NICHE_BENCHMARKS n bench_ttbp)"
  "0 < comment_rate_target (dict_get NICHE_BENCHMARKS n bench_ttbp)"
  "0 < save_rate_target (dict_get NICHE_BENCHMARKS n bench_ttbp)"
  "0 < share_rate_target (dict_get NICHE_BENCHMARKS n bench_ttbp)"
  by (simp_all add: dict_get_def NICHE_BENCHMARKS_def bench_ttbp_def bench_cb_def
      bench_tundexai_def bench_wellwithtunde_def bench_tundestalksmen_def)

lemma bench_scale_pos:
  "0 < dict_get (platform_scale (dict_get NICHE_BENCHMARKS n bench_ttbp)) pl 1"
  by (simp add: dict_get_def NICHE_BENCHMARKS_def bench_ttbp_def bench_cb_def
      bench_tundexai_def bench_wellwithtunde_def bench_tundestalksmen_def)

section \<open>The rate calculator\<close>

lemma rate_Inr:
  "base \<noteq> 0 \<Longrightarrow> rate num base = Inr (py_round (of_int num / of_int base * 100) 2)"
  by (simp add: rate_def truediv_def)

text \<open>
  Claim C7. For every post, \<^verbatim>\<open>_compute_rates\<close> returns (no \<open>ZeroDivisionError\<close>): the
  base \<^verbatim>\<open>impressions if impressions > 0 else max(reach, 1)\<close> is never zero, each of the
  five rates is \<^verbatim>\<open>(numerator / base) * 100\<close> rounded to two decimals, and a post with
  \<open>impressions = 0\<close> and \<open>reach = 0\<close> has base 1. The counters need not even be
  non-negative.
\<close>

theorem compute_rates_no_zero_division:
  "\<exists>q. compute_rates p = Inr q \<and>
     (let base = (if impressions p > 0 then impressions p else max (reach p) 1)
      in base \<noteq> 0
       \<and> engagement_rate q
           = py_round (of_int (likes p + comments p + shares p + saves p) / of_int base * 100) 2
       \<and> comment_rate q = py_round (of_int (comments p) / of_int base * 100) 2
       \<and> save_rate q = py_round (of_int (saves p) / of_int base * 100) 2
       \<and> share_rate q = py_round (of_int (shares p) / of_int base * 100) 2
       \<and> click_rate q = py_round (of_int (clicks p) / of_int base * 100) 2
       \<and> (impressions p = 0 \<and> reach p = 0 \<longrightarrow> base = 1))"
proof -
  let ?base = "if impressions p > 0 then impressions p else max (reach p) 1"
  have nz: "?base \<noteq> 0" by (simp add: max_def)
  show ?thesis
    unfolding compute_rates_def Let_def rate_Inr [OF nz] by (auto simp: max_def)
qed

text \<open>
  The example of claim C7: \<open>likes = 5\<close>, every other counter zero, gives the engagement
  rate 500.
\<close>

theorem compute_rates_no_zero_division_witness:
  "\<exists>q. compute_rates ((PostMetrics_init '''' ''ttbp'' ''linkedin'' '''' '''')\<lparr>likes := 5\<rparr>) = Inr q
      \<and> engagement_rate q = 500 \<and> comment_rate q = 0"
  using compute_rates_no_zero_division
          [of "(PostMetrics_init '''' ''ttbp'' ''linkedin'' '''' '''')\<lparr>likes := 5\<rparr>"]
  by (auto simp: PostMetrics_init_def py_round_def round_half_even_def)

section \<open>The benchmark scorer\<close>

lemma composite_score_eq:
  "composite_score (score_post p) =
     (let b = dict_get NICHE_BENCHMARKS (niche p) bench_ttbp;
          st = engagement_target b * dict_get (platform_scale b) (platform p) 1
      in py_round (min 50 ((engagement_rate p / st) * 50)
          + min 15 ((comment_rate p / comment_rate_target b) * 15)
          + min 15 ((save_rate p / save_rate_target b) * 15)
          + min 10 ((share_rate p / share_rate_target b) * 10)
          + min 10 (click_rate p * 5)) 1)"
  using bench_targets_pos [of "niche p"] bench_scale_pos [of "niche p" "platform p"]
  by (simp add: score_post_def Let_def)

lemma capped_sum_bounds:
  fixes st ct svt sht :: real
  assumes "0 < st" "0 < ct" "0 < svt" "0 < sht"
    and "0 \<le> er" "0 \<le> cr" "0 \<le> sr" "0 \<le> shr" "0 \<le> clr"
  shows "0 \<le> min 50 ((er / st) * 50) + min 15 ((cr / ct) * 15) + min 15 ((sr / svt) * 15)
            + min 10 ((shr / sht) * 10) + min 10 (clr * 5)"
    and "min 50 ((er / st) * 50) + min 15 ((cr / ct) * 15) + min 15 ((sr / svt) * 15)
            + min 10 ((shr / sht) * 10) + min 10 (clr * 5) \<le> 100"
proof -
  have "0 \<le> min 50 ((er / st) * 50)" "0 \<le> min 15 ((cr / ct) * 15)"
    "0 \<le> min 15 ((sr / svt) * 15)" "0 \<le> min 10 ((shr / sht) * 10)"
    "0 \<le> min 10 (clr * 5)"
    using assms by simp_all
  then show "0 \<le> min 50 ((er / st) * 50) + min 15 ((cr / ct) * 15) + min 15 ((sr / svt) * 15)
            + min 10 ((shr / sht) * 10) + min 10 (clr * 5)" by linarith
  show "min 50 ((er / st) * 50) + min 15 ((cr / ct) * 15) + min 15 ((sr / svt) * 15)
            + min 10 ((shr / sht) * 10) + min 10 (clr * 5) \<le> 100" by linarith
qed

lemma capped_mono:
  fixes t :: real
  assumes "0 < t" "0 \<le> w" "r \<le> r'"
  shows "min c ((r / t) * w) \<le> min c ((r' / t) * w)"
  using assms by (simp add: divide_right_mono min.coboundedI2 mult_right_mono)

text \<open>
  Claim C5. For every post whose five rates are non-negative, the composite score that
  \<^verbatim>\<open>_score_post\<close> computes lies in the closed interval from 0 to 100.
\<close>

theorem score_post_range:
  assumes "0 \<le> engagement_rate p" "0 \<le> comment_rate p" "0 \<le> save_rate p"
    "0 \<le> share_rate p" "0 \<le> click_rate p"
  shows "0 \<le> composite_score (score_post p) \<and> composite_score (score_post p) \<le> 100"
proof -
  let ?b = "dict_get NICHE_BENCHMARKS (niche p) bench_ttbp"
  let ?st = "engagement_target ?b * dict_get (platform_scale ?b) (platform p) 1"
  let ?raw = "min 50 ((engagement_rate p / ?st) * 50)
          + min 15 ((comment_rate p / comment_rate_target ?b) * 15)
          + min 15 ((save_rate p / save_rate_target ?b) * 15)
          + min 10 ((share_rate p / share_rate_target ?b) * 10)
          + min 10 (click_rate p * 5)"
  have st: "0 < ?st"
    using bench_targets_pos(1) [of "niche p"] bench_scale_pos [of "niche p" "platform p"] by simp
  have lo: "0 \<le> ?raw" and hi: "?raw \<le> 100"
    using capped_sum_bounds [OF st bench_targets_pos(2-4) assms] by blast+
  have "py_round 0 1 \<le> py_round ?raw 1"
    using lo by (rule py_round_mono)
  moreover have "py_round ?raw 1 \<le> py_round 100 1"
    using hi by (rule py_round_mono)
  ultimately have "0 \<le> py_round ?raw 1 \<and> py_round ?raw 1 \<le> 100"
    unfolding py_round_0 py_round_100 by (rule conjI)
  then show ?thesis unfolding composite_score_eq Let_def .
qed

text \<open>
  A Twitter post of niche \<open>cb\<close> with engagement rate 1, comment rate 0.2 and click
  rate 3 scores 46.1.
\<close>

theorem score_post_range_witness:
  "0 \<le> composite_score (score_post ((PostMetrics_init ''a'' ''cb'' ''twitter'' '''' '''')
        \<lparr>engagement_rate := 1, comment_rate := 2 / 10, click_rate := 3\<rparr>))
   \<and> composite_score (score_post ((PostMetrics_init ''a'' ''cb'' ''twitter'' '''' '''')
        \<lparr>engagement_rate := 1, comment_rate := 2 / 10, click_rate := 3\<rparr>)) \<le> 100
   \<and> composite_score (score_post ((PostMetrics_init ''a'' ''cb'' ''twitter'' '''' '''')
        \<lparr>engagement_rate := 1, comment_rate := 2 / 10, click_rate := 3\<rparr>)) = 461 / 10"
  using score_post_range [of "(PostMetrics_init ''a'' ''cb'' ''twitter'' '''' '''')
        \<lparr>engagement_rate := 1, comment_rate := 2 / 10, click_rate := 3\<rparr>"]
  unfolding composite_score_eq Let_def
  by (simp add: PostMetrics_init_def dict_get_simps NICHE_BENCHMARKS_def bench_cb_def
      py_round_def round_half_even_def)

text \<open>
  Claim C6. The composite score is monotonically non-decreasing in each of the five
  rates taken separately: raising one rate from \<open>r\<close> to \<open>r'\<close>, with the other four, the
  niche and the platform unchanged, never lowers the score.
\<close>

theorem score_post_monotone:
  assumes "r \<le> r'"
  shows "composite_score (score_post (p\<lparr>engagement_rate := r\<rparr>))
           \<le> composite_score (score_post (p\<lparr>engagement_rate := r'\<rparr>))
       \<and> composite_score (score_post (p\<lparr>comment_rate := r\<rparr>))
           \<le> composite_score (score_post (p\<lparr>comment_rate := r'\<rparr>))
       \<and> composite_score (score_post (p\<lparr>save_rate := r\<rparr>))
           \<le> composite_score (score_post (p\<lparr>save_rate := r'\<rparr>))
       \<and> composite_score (score_post (p\<lparr>share_rate := r\<rparr>))
           \<le> composite_score (score_post (p\<lparr>share_rate := r'\<rparr>))
       \<and> composite_score (score_post (p\<lparr>click_rate := r\<rparr>))
           \<le> composite_score (score_post (p\<lparr>click_rate := r'\<rparr>))"
proof -
  let ?b = "dict_get NICHE_BENCHMARKS (niche p) bench_ttbp"
  let ?st = "engagement_target ?b * dict_get (platform_scale ?b) (platform p) 1"
  have st: "0 < ?st"
    using bench_targets_pos(1) [of "niche p"] bench_scale_pos [of "niche p" "platform p"] by simp
  have e: "min 50 ((r / ?st) * 50) \<le> min 50 ((r' / ?st) * 50)"
    using capped_mono [OF st _ assms, where w = 50 and c = 50] by simp
  have c: "min 15 ((r / comment_rate_target ?b) * 15) \<le> min 15 ((r' / comment_rate_target ?b) * 15)"
    using capped_mono [OF bench_targets_pos(2) _ assms, where w = 15 and c = 15] by simp
  have s: "min 15 ((r / save_rate_target ?b) * 15) \<le> min 15 ((r' / save_rate_target ?b) * 15)"
    using capped_mono [OF bench_targets_pos(3) _ assms, where w = 15 and c = 15] by simp
  have sh: "min 10 ((r / share_rate_target ?b) * 10) \<le> min 10 ((r' / share_rate_target ?b) * 10)"
    using capped_mono [OF bench_targets_pos(4) _ assms, where w = 10 and c = 10] by simp
  have cl: "min 10 (r * 5) \<le> min 10 (r' * 5)"
    using assms by (simp add: min.coboundedI2)
  have 1: "composite_score (score_post (p\<lparr>engagement_rate := r\<rparr>))
           \<le> composite_score (score_post (p\<lparr>engagement_rate := r'\<rparr>))"
    unfolding composite_score_eq Let_def using e by (intro py_round_mono) simp
  have 2: "composite_score (score_post (p\<lparr>comment_rate := r\<rparr>))
           \<le> composite_score (score_post (p\<lparr>comment_rate := r'\<rparr>))"
    unfolding composite_score_eq Let_def using c by (intro py_round_mono) simp
  have 3: "composite_score (score_post (p\<lparr>save_rate := r\<rparr>))
           \<le> composite_score (score_post (p\<lparr>save_rate := r'\<rparr>))"
    unfolding composite_score_eq Let_def using s by (intro py_round_mono) simp
  have 4: "composite_score (score_post (p\<lparr>share_rate := r\<rparr>))
           \<le> composite_score (score_post (p\<lparr>share_rate := r'\<rparr>))"
    unfolding composite_score_eq Let_def using sh by (intro py_round_mono) simp
  have 5: "composite_score (score_post (p\<lparr>click_rate := r\<rparr>))
           \<le> composite_score (score_post (p\<lparr>click_rate := r'\<rparr>))"
    unfolding composite_score_eq Let_def using cl by (intro py_round_mono) simp
  from 1 2 3 4 5 show ?thesis by blast
qed

text \<open>
  On a LinkedIn post of niche \<open>ttbp\<close> whose other rates are zero, raising the engagement
  rate from 1 to 2 raises the score from 16.7 to 33.3.
\<close>

theorem score_post_monotone_witness:
  "(1 :: real) \<le> 2
   \<and> composite_score (score_post ((PostMetrics_init ''a'' ''ttbp'' ''linkedin'' '''' '''')
        \<lparr>engagement_rate := 1\<rparr>)) = 167 / 10
   \<and> composite_score (score_post ((PostMetrics_init ''a'' ''ttbp'' ''linkedin'' '''' '''')
        \<lparr>engagement_rate := 2\<rparr>)) = 333 / 10
   \<and> composite_score (score_post ((PostMetrics_init ''a'' ''ttbp'' ''linkedin'' '''' '''')
        \<lparr>engagement_rate := 1\<rparr>))
      \<le> composite_score (score_post ((PostMetrics_init ''a'' ''ttbp'' ''linkedin'' '''' '''')
        \<lparr>engagement_rate := 2\<rparr>))"
  using score_post_monotone [of 1 2 "PostMetrics_init ''a'' ''ttbp'' ''linkedin'' '''' ''''"]
  unfolding composite_score_eq Let_def
  by (simp add: PostMetrics_init_def dict_get_simps NICHE_BENCHMARKS_def bench_ttbp_def
      py_round_def round_half_even_def)

section \<open>The niche aggregator\<close>

lemma head_tail_overlap:
  assumes "xs \<noteq> []" "length xs < 6"
  shows "set (take 3 xs) \<inter> set (drop (length xs - 3) xs) \<noteq> {}"
proof (cases "length xs \<le> 3")
  case True
  then have "take 3 xs = xs" "drop (length xs - 3) xs = xs" by simp_all
  with assms(1) show ?thesis by simp
next
  case False
  with assms(2) have n: "3 < length xs" "length xs - 3 \<le> 2" by simp_all
  have "take 3 xs ! 2 = xs ! 2" by simp
  moreover have "2 < length (take 3 xs)" using n(1) by simp
  ultimately have a: "xs ! 2 \<in> set (take 3 xs)" by (metis nth_mem)
  have "drop (length xs - 3) xs ! (2 - (length xs - 3)) = xs ! 2"
    using n by simp
  moreover have "2 - (length xs - 3) < length (drop (length xs - 3) xs)" using n by simp
  ultimately have b: "xs ! 2 \<in> set (drop (length xs - 3) xs)" by (metis nth_mem)
  from a b show ?thesis by blast
qed

lemma short_bottom_is_rev_top:
  assumes "length xs \<le> 3"
  shows "rev (drop (length xs - 3) xs) = rev (take 3 xs)"
  using assms by simp

lemma analyze_niche_Some:
  assumes "analyze_niche si br posts n pl = Some perf"
  shows "filter (\<lambda>p. niche p = n \<and> platform p = pl) posts \<noteq> []"
    and "top_performers perf
         = take 3 (sort_key (\<lambda>p. - composite_score p) (filter (\<lambda>p. niche p = n \<and> platform p = pl) posts))"
    and "bottom_performers perf
         = rev (drop (length (filter (\<lambda>p. niche p = n \<and> platform p = pl) posts) - 3)
             (sort_key (\<lambda>p. - composite_score p) (filter (\<lambda>p. niche p = n \<and> platform p = pl) posts)))"
    and "post_count perf = length (filter (\<lambda>p. niche p = n \<and> platform p = pl) posts)"
  using assms by (auto simp: analyze_niche_def Let_def split: if_splits)

lemma analyze_niche_defined:
  assumes "filter (\<lambda>p. niche p = n \<and> platform p = pl) posts \<noteq> []"
  shows "\<exists>perf. analyze_niche si br posts n pl = Some perf"
  using assms by (simp add: analyze_niche_def Let_def)

text \<open>
  Claim C10. When \<^verbatim>\<open>_analyze_niche\<close> returns a performance for a niche and platform,
  its top and bottom performers are cut from one list, the posts of the group sorted in
  descending order of the composite score: the top performers are the first three, the
  bottom performers the last three reversed. So a group of fewer than 6 posts has a post
  in both lists, and for a group of at most 3 posts the bottom performers are the top
  performers reversed.
\<close>

theorem analyze_niche_top_bottom:
  assumes "analyze_niche si br posts n pl = Some perf"
  shows "(let s = sort_key (\<lambda>p. - composite_score p)
                    (filter (\<lambda>p. niche p = n \<and> platform p = pl) posts)
          in post_count perf = length s
           \<and> sorted (map (\<lambda>p. - composite_score p) s)
           \<and> top_performers perf = take 3 s
           \<and> bottom_performers perf = rev (drop (length s - 3) s))
       \<and> (post_count perf < 6 \<longrightarrow> set (top_performers perf) \<inter> set (bottom_performers perf) \<noteq> {})
       \<and> (post_count perf \<le> 3 \<longrightarrow> bottom_performers perf = rev (top_performers perf))"
proof -
  define f where "f = filter (\<lambda>p. niche p = n \<and> platform p = pl) posts"
  define s where "s = sort_key (\<lambda>p. - composite_score p) f"
  note a = analyze_niche_Some [OF assms, folded f_def]
  have len: "length s = length f" unfolding s_def by (rule length_sort)
  have ne: "s \<noteq> []" using a(1) len by (metis length_0_conv)
  have top: "top_performers perf = take 3 s" unfolding s_def by (rule a(2))
  have bot: "bottom_performers perf = rev (drop (length s - 3) s)"
    unfolding len unfolding s_def by (rule a(3))
  have cnt: "post_count perf = length s" unfolding len by (rule a(4))
  have 1: "post_count perf < 6 \<longrightarrow> set (top_performers perf) \<inter> set (bottom_performers perf) \<noteq> {}"
    using head_tail_overlap [OF ne] unfolding top bot cnt by simp
  have 2: "post_count perf \<le> 3 \<longrightarrow> bottom_performers perf = rev (top_performers perf)"
    unfolding top bot cnt by simp
  have 3: "sorted (map (\<lambda>p. - composite_score p) s)" unfolding s_def by (rule sorted_sort_key)
  have 4: "post_count perf = length s
           \<and> sorted (map (\<lambda>p. - composite_score p) s)
           \<and> top_performers perf = take 3 s
           \<and> bottom_performers perf = rev (drop (length s - 3) s)"
    using cnt 3 top bot by blast
  show ?thesis unfolding Let_def f_def [symmetric] s_def [symmetric] using 4 1 2 by blast
qed

lemma compute_rates_eq:
  "compute_rates p =
     (let base = (if impressions p > 0 then impressions p else max (reach p) 1)
      in Inr (p\<lparr> engagement_rate :=
                   py_round (of_int (likes p + comments p + shares p + saves p) / of_int base * 100) 2,
                 comment_rate := py_round (of_int (comments p) / of_int base * 100) 2,
                 save_rate := py_round (of_int (saves p) / of_int base * 100) 2,
                 share_rate := py_round (of_int (shares p) / of_int base * 100) 2,
                 click_rate := py_round (of_int (clicks p) / of_int base * 100) 2 \<rparr>))"
proof -
  let ?base = "if impressions p > 0 then impressions p else max (reach p) 1"
  have nz: "?base \<noteq> 0" by (simp add: max_def)
  show ?thesis unfolding compute_rates_def Let_def rate_Inr [OF nz] by simp
qed

lemma scenario_rates:
  "compute_rates (scenario_post pid 10) =
     Inr ((scenario_post pid 10)\<lparr> engagement_rate := 15 / 10,
            comment_rate := 5 / 10, save_rate := 0, share_rate := 0, click_rate := 0 \<rparr>)"
  "compute_rates (scenario_post pid 50) =
     Inr ((scenario_post pid 50)\<lparr> engagement_rate := 55 / 10,
            comment_rate := 5 / 10, save_rate := 0, share_rate := 0, click_rate := 0 \<rparr>)"
  "compute_rates (scenario_post pid 100) =
     Inr ((scenario_post pid 100)\<lparr> engagement_rate := 105 / 10,
            comment_rate := 5 / 10, save_rate := 0, share_rate := 0, click_rate := 0 \<rparr>)"
  unfolding compute_rates_eq Let_def
  by (simp_all add: scenario_post_def PostMetrics_init_def py_round_def round_half_even_def)

lemma scenario_composite:
  "composite_score (score_post ((scenario_post pid l)\<lparr> engagement_rate := e,
            comment_rate := 5 / 10, save_rate := 0, share_rate := 0, click_rate := 0 \<rparr>))
   = py_round (min 50 (e / 3 * 50) + 15) 1"
  unfolding composite_score_eq Let_def
  by (simp add: scenario_post_def PostMetrics_init_def dict_get_simps NICHE_BENCHMARKS_def bench_ttbp_def)

lemma scenario_scores:
  "composite_score (score_post ((scenario_post pid l)\<lparr> engagement_rate := 15 / 10,
            comment_rate := 5 / 10, save_rate := 0, share_rate := 0, click_rate := 0 \<rparr>)) = 40"
  "composite_score (score_post ((scenario_post pid l)\<lparr> engagement_rate := 55 / 10,
            comment_rate := 5 / 10, save_rate := 0, share_rate := 0, click_rate := 0 \<rparr>)) = 65"
  "composite_score (score_post ((scenario_post pid l)\<lparr> engagement_rate := 105 / 10,
            comment_rate := 5 / 10, save_rate := 0, share_rate := 0, click_rate := 0 \<rparr>)) = 65"
  unfolding scenario_composite
  by (simp_all add: py_round_def round_half_even_def)

lemma score_post_other_fields:
  "niche (score_post p) = niche p" "platform (score_post p) = platform p"
  "engagement_rate (score_post p) = engagement_rate p" "likes (score_post p) = likes p"
  "post_id (score_post p) = post_id p"
  by (simp_all add: score_post_def Let_def)

lemma scenario_scored:
  "rate_and_score (scenario_post pid 10) =
     Inr (score_post ((scenario_post pid 10)\<lparr> engagement_rate := 15 / 10,
            comment_rate := 5 / 10, save_rate := 0, share_rate := 0, click_rate := 0 \<rparr>))"
  "rate_and_score (scenario_post pid 50) =
     Inr (score_post ((scenario_post pid 50)\<lparr> engagement_rate := 55 / 10,
            comment_rate := 5 / 10, save_rate := 0, share_rate := 0, click_rate := 0 \<rparr>))"
  "rate_and_score (scenario_post pid 100) =
     Inr (score_post ((scenario_post pid 100)\<lparr> engagement_rate := 105 / 10,
            comment_rate := 5 / 10, save_rate := 0, share_rate := 0, click_rate := 0 \<rparr>))"
  by (simp_all add: rate_and_score_def scenario_rates)

lemma scenario_sorted:
  fixes a b c :: PostMetrics
  assumes "composite_score a = 40" "composite_score b = 65" "composite_score c = 65"
    and "niche a = ''ttbp''" "niche b = ''ttbp''" "niche c = ''ttbp''"
    and "platform a = ''linkedin''" "platform b = ''linkedin''" "platform c = ''linkedin''"
  shows "sort_key (\<lambda>p. - composite_score p)
           (filter (\<lambda>p. niche p = ''ttbp'' \<and> platform p = ''linkedin'') [a, b, c]) = [b, c, a]"
  using assms by simp

text \<open>
  Claim C1, as amended. For the three LinkedIn posts of niche \<open>ttbp\<close> with 1000
  impressions, 5 comments and 10, 50 and 100 likes, in this order: the engagement rates
  are 1.5, 5.5 and 10.5; the composite scores are 40, 65 and 65, so they do not decrease
  with the likes, but the posts of 50 and 100 likes tie, since the engagement component
  is capped at 50 for both; and the top performers of the group are the post of 50
  likes, then the post of 100 likes, then the post of 10 likes: the sort is stable, so
  the first of the two tied posts comes first.
\<close>

theorem scenario_three_posts:
  "\<exists>a b c. rate_and_score (scenario_post ''a'' 10) = Inr a
      \<and> rate_and_score (scenario_post ''b'' 50) = Inr b
      \<and> rate_and_score (scenario_post ''c'' 100) = Inr c
      \<and> map engagement_rate [a, b, c] = [15 / 10, 55 / 10, 105 / 10]
      \<and> map composite_score [a, b, c] = [40, 65, 65]
      \<and> (\<exists>perf. analyze_niche si br [a, b, c] ''ttbp'' ''linkedin'' = Some perf
            \<and> top_performers perf = [b, c, a])"
proof -
  define a where "a = score_post ((scenario_post ''a'' 10)\<lparr> engagement_rate := 15 / 10,
            comment_rate := 5 / 10, save_rate := 0, share_rate := 0, click_rate := 0 \<rparr>)"
  define b where "b = score_post ((scenario_post ''b'' 50)\<lparr> engagement_rate := 55 / 10,
            comment_rate := 5 / 10, save_rate := 0, share_rate := 0, click_rate := 0 \<rparr>)"
  define c where "c = score_post ((scenario_post ''c'' 100)\<lparr> engagement_rate := 105 / 10,
            comment_rate := 5 / 10, save_rate := 0, share_rate := 0, click_rate := 0 \<rparr>)"
  have ra: "rate_and_score (scenario_post ''a'' 10) = Inr a"
    and rb: "rate_and_score (scenario_post ''b'' 50) = Inr b"
    and rc: "rate_and_score (scenario_post ''c'' 100) = Inr c"
    unfolding a_def b_def c_def by (rule scenario_scored)+
  have sc: "composite_score a = 40" "composite_score b = 65" "composite_score c = 65"
    unfolding a_def b_def c_def by (rule scenario_scores)+
  have er: "engagement_rate a = 15 / 10" "engagement_rate b = 55 / 10" "engagement_rate c = 105 / 10"
    unfolding a_def b_def c_def by (simp_all add: score_post_other_fields)
  have np: "niche a = ''ttbp''" "niche b = ''ttbp''" "niche c = ''ttbp''"
    "platform a = ''linkedin''" "platform b = ''linkedin''" "platform c = ''linkedin''"
    unfolding a_def b_def c_def
    by (simp_all add: score_post_other_fields scenario_post_def PostMetrics_init_def)
  have srt: "sort_key (\<lambda>p. - composite_score p)
           (filter (\<lambda>p. niche p = ''ttbp'' \<and> platform p = ''linkedin'') [a, b, c]) = [b, c, a]"
    using sc np by (rule scenario_sorted)
  have "filter (\<lambda>p. niche p = ''ttbp'' \<and> platform p = ''linkedin'') [a, b, c] \<noteq> []"
    using np by simp
  then obtain perf where p: "analyze_niche si br [a, b, c] ''ttbp'' ''linkedin'' = Some perf"
    using analyze_niche_defined by blast
  have "top_performers perf = [b, c, a]"
    using analyze_niche_Some(2) [OF p] unfolding srt by simp
  with p ra rb rc sc er show ?thesis by auto
qed

text \<open>
  Claim C1 as stated fails on this input: the score of the post of 100 likes is not
  greater than the score of the post of 50 likes, and the first top performer is not
  the post of 100 likes.
\<close>

theorem scenario_scores_tie:
  "\<not> composite_score (projr (rate_and_score (scenario_post ''b'' 50)))
       < composite_score (projr (rate_and_score (scenario_post ''c'' 100)))
   \<and> top_performers (the (analyze_niche remdups (\<lambda>perf posts. [])
        [projr (rate_and_score (scenario_post ''a'' 10)),
         projr (rate_and_score (scenario_post ''b'' 50)),
         projr (rate_and_score (scenario_post ''c'' 100))] ''ttbp'' ''linkedin'')) ! 0
     \<noteq> projr (rate_and_score (scenario_post ''c'' 100))"
proof -
  let ?a = "projr (rate_and_score (scenario_post ''a'' 10))"
  let ?b = "projr (rate_and_score (scenario_post ''b'' 50))"
  let ?c = "projr (rate_and_score (scenario_post ''c'' 100))"
  have sc: "composite_score ?a = 40" "composite_score ?b = 65" "composite_score ?c = 65"
    unfolding scenario_scored sum.sel by (rule scenario_scores)+
  have np: "niche ?a = ''ttbp''" "niche ?b = ''ttbp''" "niche ?c = ''ttbp''"
    "platform ?a = ''linkedin''" "platform ?b = ''linkedin''" "platform ?c = ''linkedin''"
    unfolding scenario_scored sum.sel
    by (simp_all add: score_post_other_fields scenario_post_def PostMetrics_init_def)
  have ne: "filter (\<lambda>p. niche p = ''ttbp'' \<and> platform p = ''linkedin'') [?a, ?b, ?c] \<noteq> []"
    using np by simp
  obtain perf where p: "analyze_niche remdups (\<lambda>perf posts. []) [?a, ?b, ?c] ''ttbp'' ''linkedin'' = Some perf"
    using analyze_niche_defined [OF ne] by blast
  have "top_performers perf = [?b, ?c, ?a]"
    using analyze_niche_Some(2) [OF p] unfolding scenario_sorted [OF sc np] by simp
  then have top: "top_performers (the (analyze_niche remdups (\<lambda>perf posts. []) [?a, ?b, ?c] ''ttbp'' ''linkedin'')) ! 0 = ?b"
    using p by simp
  have "post_id ?b \<noteq> post_id ?c"
    unfolding scenario_scored sum.sel
    by (simp add: score_post_other_fields scenario_post_def PostMetrics_init_def)
  then have "?b \<noteq> ?c" by metis
  with top sc show ?thesis by simp
qed

text \<open>
  Two posts of niche \<open>ttbp\<close> on LinkedIn with scores 10 and 20, and one post of another
  niche: the group has two posts, the top performers are the posts with score 20 and 10,
  and the bottom performers are the same two in reverse.
\<close>

theorem analyze_niche_top_bottom_witness:
  "\<exists>perf. analyze_niche remdups (\<lambda>perf posts. [])
       [(PostMetrics_init ''a'' ''ttbp'' ''linkedin'' '''' '''')\<lparr>composite_score := 10\<rparr>,
        (PostMetrics_init ''b'' ''cb'' ''linkedin'' '''' '''')\<lparr>composite_score := 30\<rparr>,
        (PostMetrics_init ''c'' ''ttbp'' ''linkedin'' '''' '''')\<lparr>composite_score := 20\<rparr>]
       ''ttbp'' ''linkedin'' = Some perf
     \<and> post_count perf = 2
     \<and> top_performers perf =
         [(PostMetrics_init ''c'' ''ttbp'' ''linkedin'' '''' '''')\<lparr>composite_score := 20\<rparr>,
          (PostMetrics_init ''a'' ''ttbp'' ''linkedin'' '''' '''')\<lparr>composite_score := 10\<rparr>]
     \<and> bottom_performers perf = rev (top_performers perf)
     \<and> set (top_performers perf) \<inter> set (bottom_performers perf) \<noteq> {}"
proof -
  let ?posts = "[(PostMetrics_init ''a'' ''ttbp'' ''linkedin'' '''' '''')\<lparr>composite_score := 10\<rparr>,
        (PostMetrics_init ''b'' ''cb'' ''linkedin'' '''' '''')\<lparr>composite_score := 30\<rparr>,
        (PostMetrics_init ''c'' ''ttbp'' ''linkedin'' '''' '''')\<lparr>composite_score := 20\<rparr>]"
  have s: "sort_key (\<lambda>p. - composite_score p)
            (filter (\<lambda>p. niche p = ''ttbp'' \<and> platform p = ''linkedin'') ?posts)
          = [(PostMetrics_init ''c'' ''ttbp'' ''linkedin'' '''' '''')\<lparr>composite_score := 20\<rparr>,
             (PostMetrics_init ''a'' ''ttbp'' ''linkedin'' '''' '''')\<lparr>composite_score := 10\<rparr>]"
    by (simp add: PostMetrics_init_def)
  have "filter (\<lambda>p. niche p = ''ttbp'' \<and> platform p = ''linkedin'') ?posts \<noteq> []"
    by (simp add: PostMetrics_init_def)
  then obtain perf where p: "analyze_niche remdups (\<lambda>perf posts. []) ?posts ''ttbp'' ''linkedin'' = Some perf"
    using analyze_niche_defined by blast
  show ?thesis
    using analyze_niche_top_bottom [OF p] p unfolding s Let_def by auto
qed

section \<open>The pattern detector\<close>

lemma format_gap_cases:
  "format_gap fe e = [] \<or> (\<exists>x. format_gap fe e = [x] \<and> rule_of x = 1 \<and> format_of x = fst e)"
  by (simp add: format_gap_def Let_def)

lemma gaps_rule: "x \<in> set (concat (map (format_gap fe) es)) \<Longrightarrow> rule_of x = 1"
proof (induction es)
  case Nil
  then show ?case by simp
next
  case (Cons e es)
  with format_gap_cases [of fe e] show ?case by auto
qed

lemma gaps_subseq: "subseq (map format_of (concat (map (format_gap fe) es))) (map fst es)"
proof (induction es)
  case Nil
  show ?case by simp
next
  case (Cons e es)
  from format_gap_cases [of fe e] show ?case
  proof
    assume "format_gap fe e = []"
    with Cons show ?thesis by (simp add: subseq_drop_many [where zs = "[fst e]", simplified])
  next
    assume "\<exists>x. format_gap fe e = [x] \<and> rule_of x = 1 \<and> format_of x = fst e"
    then obtain x where "format_gap fe e = [x]" "format_of x = fst e" by blast
    with Cons show ?thesis by simp
  qed
qed

lemma map_const_replicate: "(\<And>x. x \<in> set xs \<Longrightarrow> f x = c) \<Longrightarrow> map f xs = replicate (length xs) c"
  by (induction xs) simp_all

lemma rule_order:
  assumes "\<And>x. x \<in> set g \<Longrightarrow> rule_of x = 1"
  shows "sorted (map rule_of (g @ (if a then [HighSave s] else [])
             @ (if b then [HighComment c] else []) @ (if d then [LowPerformers l] else [])))"
proof -
  have "map rule_of g = replicate (length g) 1" using assms by (rule map_const_replicate)
  then show ?thesis by (simp add: sorted_append)
qed

lemma first_rule_part:
  assumes "\<And>x. x \<in> set g \<Longrightarrow> rule_of x = 1" "\<And>x. x \<in> set r \<Longrightarrow> rule_of x \<noteq> 1"
  shows "filter (\<lambda>f. rule_of f = 1) (take n (g @ r)) = take n g"
proof -
  have "filter (\<lambda>f. rule_of f = 1) (take n g) = take n g"
    using assms(1) by (meson filter_True in_set_takeD)
  moreover have "filter (\<lambda>f. rule_of f = 1) (take (n - length g) r) = []"
    using assms(2) by (metis (mono_tags, lifting) filter_False in_set_takeD)
  ultimately show ?thesis by simp
qed

text \<open>
  Claim C8. \<^verbatim>\<open>_detect_patterns\<close> returns at most 5 findings, and they stand in the
  order of the rules: the rule numbers never decrease along the list (the findings on
  formats first, then the one on saves, on comments, on low performers). The findings on
  formats name the formats in the order of the dictionary of formats, whatever the sizes
  of the gaps.
\<close>

theorem detect_patterns_cap_and_order:
  "length (detect_patterns si posts) \<le> 5
   \<and> sorted (map rule_of (detect_patterns si posts))
   \<and> subseq (map format_of (filter (\<lambda>f. rule_of f = 1) (detect_patterns si posts)))
        (map fst (fmt_eng_of posts))"
proof (cases "posts = []")
  case True
  then show ?thesis by (simp add: detect_patterns_def)
next
  case False
  let ?fe = "fmt_eng_of posts"
  let ?g = "concat (map (format_gap ?fe) ?fe)"
  let ?hs = "filter (\<lambda>p. save_rate p > 5 / 10) posts"
  let ?hc = "filter (\<lambda>p. comment_rate p > 5 / 10) posts"
  let ?lo = "filter (\<lambda>p. benchmark_delta p < - (15 / 10)) posts"
  let ?r = "(if length ?hs \<ge> 2 then [HighSave (dominant si (map format_type ?hs))] else [])
            @ (if ?hc \<noteq> [] then [HighComment (dominant si (map format_type ?hc))] else [])
            @ (if length ?lo \<ge> 2 then [LowPerformers (dominant si (map format_type ?lo))] else [])"
  have dp: "detect_patterns si posts = take 5 (?g @ ?r)"
    using False by (simp add: detect_patterns_def Let_def)
  have g1: "\<And>x. x \<in> set ?g \<Longrightarrow> rule_of x = 1" by (rule gaps_rule)
  have r1: "\<And>x. x \<in> set ?r \<Longrightarrow> rule_of x \<noteq> 1" by (auto split: if_splits)
  have 1: "length (detect_patterns si posts) \<le> 5" unfolding dp by simp
  have "sorted (map rule_of (?g @ ?r))" using g1 by (rule rule_order)
  then have 2: "sorted (map rule_of (detect_patterns si posts))"
    unfolding dp take_map [symmetric] by (rule sorted_wrt_take)
  have "filter (\<lambda>f. rule_of f = 1) (detect_patterns si posts) = take 5 ?g"
    unfolding dp using g1 r1 by (rule first_rule_part)
  moreover have "subseq (map format_of (take 5 ?g)) (map format_of ?g)"
    using prefix_imp_subseq [OF map_mono_prefix [OF take_is_prefix]] .
  ultimately have 3: "subseq (map format_of (filter (\<lambda>f. rule_of f = 1) (detect_patterns si posts)))
        (map fst ?fe)"
    using gaps_subseq [of ?fe ?fe] by (metis subseq_order.trans)
  from 1 2 3 show ?thesis by blast
qed

section \<open>The period filter\<close>

lemma filter_loop_Inr:
  assumes "filter_loop fi c ps = Inr r"
  shows "r = filter (\<lambda>p. keeps fi c p = Inr True) ps"
    and "\<And>p. p \<in> set ps \<Longrightarrow> \<exists>k. keeps fi c p = Inr k"
  using assms
proof (induction ps arbitrary: r)
  case Nil
  { case 1 then show ?case by simp }
  { case 2 then show ?case by simp }
next
  case (Cons a ps)
  { case 1
    then show ?case using Cons.IH(1) by (auto split: sum.splits if_splits) }
  { case 2
    then show ?case using Cons.IH(2) by (auto split: sum.splits if_splits) }
qed

lemma keeps_shape:
  "keeps fi c p = Inr k \<Longrightarrow> \<exists>k'. keeps fi c' p = Inr k'"
  by (auto simp: keeps_def split: parsed.splits)

lemma keeps_mono:
  "c' \<le> c \<Longrightarrow> keeps fi c p = Inr True \<Longrightarrow> keeps fi c' p = Inr True"
  by (auto simp: keeps_def split: parsed.splits)

lemma keeps_unparseable:
  "fi (split_T (published_at p)) = Unparseable \<Longrightarrow> keeps fi c p = Inr True"
  by (simp add: keeps_def)

lemma filter_loop_defined:
  assumes "\<And>p. p \<in> set ps \<Longrightarrow> \<exists>k. keeps fi c p = Inr k"
  shows "filter_loop fi c ps = Inr (filter (\<lambda>p. keeps fi c p = Inr True) ps)"
  using assms
proof (induction ps)
  case Nil
  show ?case by simp
next
  case (Cons a ps)
  from Cons.prems obtain k where k: "keeps fi c a = Inr k" by auto
  have "filter_loop fi c ps = Inr (filter (\<lambda>p. keeps fi c p = Inr True) ps)"
    using Cons by simp
  with k show ?case by simp
qed

lemma filter_loop_other_cutoff:
  assumes "filter_loop fi c ps = Inr r"
  shows "filter_loop fi c' ps = Inr (filter (\<lambda>p. keeps fi c' p = Inr True) ps)"
proof (rule filter_loop_defined)
  fix p assume "p \<in> set ps"
  then obtain k where "keeps fi c p = Inr k" using filter_loop_Inr(2) [OF assms] by blast
  then show "\<exists>k. keeps fi c' p = Inr k" by (rule keeps_shape)
qed

lemma filter_loop_raises_alike:
  "(\<exists>e. filter_loop fi c ps = Inl e) \<longleftrightarrow> (\<exists>e. filter_loop fi c' ps = Inl e)"
  by (metis filter_loop_other_cutoff sum.exhaust sum.distinct(1))

lemma filter_by_period_all: "filter_by_period fi now posts ''all'' = Inr posts"
  by (simp add: filter_by_period_def)

lemma filter_by_period_week:
  "filter_by_period fi now posts ''week'' =
     (case filter_loop fi (now - timedelta_days 7) posts of
        Inl e \<Rightarrow> Inl e | Inr result \<Rightarrow> Inr (if result = [] then posts else result))"
  by (simp add: filter_by_period_def)

lemma filter_by_period_month:
  "filter_by_period fi now posts ''month'' =
     (case filter_loop fi (now - timedelta_days 30) posts of
        Inl e \<Rightarrow> Inl e | Inr result \<Rightarrow> Inr (if result = [] then posts else result))"
  by (simp add: filter_by_period_def)

lemma cutoff_month_le_week: "now - timedelta_days 30 \<le> now - timedelta_days 7"
  by (simp add: timedelta_days_def)

lemma nonempty_mono: "A \<noteq> {} \<Longrightarrow> A \<subseteq> B \<Longrightarrow> B \<noteq> {}"
  by auto

text \<open>
  Claim C2, as amended. For every list of posts, every reference time \<open>now\<close> and every
  behaviour of the date parser: the period \<open>all\<close> returns the list unchanged; the filter
  raises for \<open>week\<close> exactly when it raises for \<open>month\<close> (an aware datetime); and when
  both return, each result is within the input (so within the result for \<open>all\<close>), posts
  with an unparseable date are in both results, an empty pass falls back to the whole
  input, so no result is empty unless the input is, and the result for \<open>week\<close> is within
  the result for \<open>month\<close> whenever the pass for \<open>week\<close> keeps at least one post. When
  it keeps none, the result for \<open>week\<close> is the whole input and can exceed the result for
  \<open>month\<close>.
\<close>

theorem filter_by_period_props:
  "filter_by_period fi now posts ''all'' = Inr posts
   \<and> ((\<exists>e. filter_by_period fi now posts ''week'' = Inl e)
        \<longleftrightarrow> (\<exists>e. filter_by_period fi now posts ''month'' = Inl e))
   \<and> (\<forall>w m. filter_by_period fi now posts ''week'' = Inr w
            \<and> filter_by_period fi now posts ''month'' = Inr m \<longrightarrow>
          set w \<subseteq> set posts \<and> set m \<subseteq> set posts
        \<and> (filter_loop fi (now - timedelta_days 7) posts \<noteq> Inr [] \<longrightarrow> set w \<subseteq> set m)
        \<and> (\<forall>p \<in> set posts. fi (split_T (published_at p)) = Unparseable \<longrightarrow> p \<in> set w \<and> p \<in> set m)
        \<and> (filter_loop fi (now - timedelta_days 7) posts = Inr [] \<longrightarrow> w = posts)
        \<and> (filter_loop fi (now - timedelta_days 30) posts = Inr [] \<longrightarrow> m = posts)
        \<and> (posts \<noteq> [] \<longrightarrow> w \<noteq> [] \<and> m \<noteq> []))"
proof (intro conjI allI impI)
  show "filter_by_period fi now posts ''all'' = Inr posts" by (rule filter_by_period_all)
next
  show "(\<exists>e. filter_by_period fi now posts ''week'' = Inl e)
        \<longleftrightarrow> (\<exists>e. filter_by_period fi now posts ''month'' = Inl e)"
    using filter_loop_raises_alike [of fi "now - timedelta_days 7" posts "now - timedelta_days 30"]
    unfolding filter_by_period_week filter_by_period_month
    by (auto split: sum.splits)
next
  fix w m
  assume a: "filter_by_period fi now posts ''week'' = Inr w
            \<and> filter_by_period fi now posts ''month'' = Inr m"
  let ?c7 = "now - timedelta_days 7" and ?c30 = "now - timedelta_days 30"
  let ?k7 = "filter (\<lambda>p. keeps fi ?c7 p = Inr True) posts"
  let ?k30 = "filter (\<lambda>p. keeps fi ?c30 p = Inr True) posts"
  from a obtain r7 where r7: "filter_loop fi ?c7 posts = Inr r7"
    unfolding filter_by_period_week by (auto split: sum.splits)
  have l7: "filter_loop fi ?c7 posts = Inr ?k7" using filter_loop_Inr(1) [OF r7] r7 by simp
  have l30: "filter_loop fi ?c30 posts = Inr ?k30" using r7 by (rule filter_loop_other_cutoff)
  have w: "w = (if ?k7 = [] then posts else ?k7)"
    using a unfolding filter_by_period_week l7 by simp
  have m: "m = (if ?k30 = [] then posts else ?k30)"
    using a unfolding filter_by_period_month l30 by simp
  have sub: "set ?k7 \<subseteq> set ?k30"
    using keeps_mono [OF cutoff_month_le_week] by auto
  show "set w \<subseteq> set posts" unfolding w by auto
  show "set m \<subseteq> set posts" unfolding m by auto
  show "set w \<subseteq> set m" if "filter_loop fi ?c7 posts \<noteq> Inr []"
  proof -
    from that have ne: "?k7 \<noteq> []" unfolding l7 by simp
    then have "set ?k7 \<noteq> {}" by (simp only: set_empty not_False_eq_True)
    then have "set ?k30 \<noteq> {}" using sub by (rule nonempty_mono)
    then have "?k30 \<noteq> []" by (simp only: set_empty not_False_eq_True)
    with ne sub show ?thesis unfolding w m by simp
  qed
  show "\<forall>p \<in> set posts. fi (split_T (published_at p)) = Unparseable \<longrightarrow> p \<in> set w \<and> p \<in> set m"
    unfolding w m by (auto simp: keeps_unparseable)
  show "w = posts" if "filter_loop fi ?c7 posts = Inr []"
    using that unfolding l7 w by simp
  show "m = posts" if "filter_loop fi ?c30 posts = Inr []"
    using that unfolding l30 m by simp
  show "w \<noteq> []" if "posts \<noteq> []" using that unfolding w by simp
  show "m \<noteq> []" if "posts \<noteq> []" using that unfolding m by simp
qed

lemma parse_examples:
  "fromisoformat_date ''2024-01-28'' = Naive 63841996800000000"
  "fromisoformat_date ''2024-01-20'' = Naive 63841305600000000"
  "fromisoformat_date ''2024-01-10'' = Naive 63840441600000000"
  "fromisoformat_date ''2023-11-01'' = Naive 63834393600000000"
  "fromisoformat_date ''soon'' = Unparseable"
  by (simp_all add: fromisoformat_date_def digit_val_def days_before_year_def
      days_before_month_def days_in_month_def is_leap_def upt_rec)

lemma published_at_init: "published_at (PostMetrics_init pid n pl pub prev) = pub"
  by (simp add: PostMetrics_init_def)

lemma week_example:
  "filter_by_period fromisoformat_date 63842169600000000
     [PostMetrics_init ''p1'' ''ttbp'' ''linkedin'' ''2024-01-28'' '''',
      PostMetrics_init ''p2'' ''ttbp'' ''linkedin'' ''2024-01-10'' '''',
      PostMetrics_init ''p3'' ''ttbp'' ''linkedin'' ''2023-11-01'' '''',
      PostMetrics_init ''p4'' ''ttbp'' ''linkedin'' ''soon'' ''''] ''week''
   = Inr [PostMetrics_init ''p1'' ''ttbp'' ''linkedin'' ''2024-01-28'' '''',
          PostMetrics_init ''p4'' ''ttbp'' ''linkedin'' ''soon'' '''']"
  unfolding filter_by_period_week
  by (simp add: keeps_def published_at_init split_T_def parse_examples timedelta_days_def)

lemma month_example:
  "filter_by_period fromisoformat_date 63842169600000000
     [PostMetrics_init ''p1'' ''ttbp'' ''linkedin'' ''2024-01-28'' '''',
      PostMetrics_init ''p2'' ''ttbp'' ''linkedin'' ''2024-01-10'' '''',
      PostMetrics_init ''p3'' ''ttbp'' ''linkedin'' ''2023-11-01'' '''',
      PostMetrics_init ''p4'' ''ttbp'' ''linkedin'' ''soon'' ''''] ''month''
   = Inr [PostMetrics_init ''p1'' ''ttbp'' ''linkedin'' ''2024-01-28'' '''',
          PostMetrics_init ''p2'' ''ttbp'' ''linkedin'' ''2024-01-10'' '''',
          PostMetrics_init ''p4'' ''ttbp'' ''linkedin'' ''soon'' '''']"
  unfolding filter_by_period_month
  by (simp add: keeps_def published_at_init split_T_def parse_examples timedelta_days_def)

text \<open>
  On 2024-01-30, posts of 2024-01-28, 2024-01-10, 2023-11-01 and one with the date
  \<open>soon\<close>: the week keeps the first and the last, the month the first, second and last.
\<close>

theorem filter_by_period_props_witness:
  "filter_by_period fromisoformat_date 63842169600000000
     [PostMetrics_init ''p1'' ''ttbp'' ''linkedin'' ''2024-01-28'' '''',
      PostMetrics_init ''p2'' ''ttbp'' ''linkedin'' ''2024-01-10'' '''',
      PostMetrics_init ''p3'' ''ttbp'' ''linkedin'' ''2023-11-01'' '''',
      PostMetrics_init ''p4'' ''ttbp'' ''linkedin'' ''soon'' ''''] ''week''
   = Inr [PostMetrics_init ''p1'' ''ttbp'' ''linkedin'' ''2024-01-28'' '''',
          PostMetrics_init ''p4'' ''ttbp'' ''linkedin'' ''soon'' '''']
   \<and> filter_by_period fromisoformat_date 63842169600000000
     [PostMetrics_init ''p1'' ''ttbp'' ''linkedin'' ''2024-01-28'' '''',
      PostMetrics_init ''p2'' ''ttbp'' ''linkedin'' ''2024-01-10'' '''',
      PostMetrics_init ''p3'' ''ttbp'' ''linkedin'' ''2023-11-01'' '''',
      PostMetrics_init ''p4'' ''ttbp'' ''linkedin'' ''soon'' ''''] ''month''
   = Inr [PostMetrics_init ''p1'' ''ttbp'' ''linkedin'' ''2024-01-28'' '''',
          PostMetrics_init ''p2'' ''ttbp'' ''linkedin'' ''2024-01-10'' '''',
          PostMetrics_init ''p4'' ''ttbp'' ''linkedin'' ''soon'' '''']
   \<and> set [PostMetrics_init ''p1'' ''ttbp'' ''linkedin'' ''2024-01-28'' '''',
          PostMetrics_init ''p4'' ''ttbp'' ''linkedin'' ''soon'' '''']
       \<subseteq> set [PostMetrics_init ''p1'' ''ttbp'' ''linkedin'' ''2024-01-28'' '''',
          PostMetrics_init ''p2'' ''ttbp'' ''linkedin'' ''2024-01-10'' '''',
          PostMetrics_init ''p4'' ''ttbp'' ''linkedin'' ''soon'' '''']"
proof -
  let ?posts = "[PostMetrics_init ''p1'' ''ttbp'' ''linkedin'' ''2024-01-28'' '''',
      PostMetrics_init ''p2'' ''ttbp'' ''linkedin'' ''2024-01-10'' '''',
      PostMetrics_init ''p3'' ''ttbp'' ''linkedin'' ''2023-11-01'' '''',
      PostMetrics_init ''p4'' ''ttbp'' ''linkedin'' ''soon'' '''']"
  let ?w = "[PostMetrics_init ''p1'' ''ttbp'' ''linkedin'' ''2024-01-28'' '''',
          PostMetrics_init ''p4'' ''ttbp'' ''linkedin'' ''soon'' '''']"
  let ?m = "[PostMetrics_init ''p1'' ''ttbp'' ''linkedin'' ''2024-01-28'' '''',
          PostMetrics_init ''p2'' ''ttbp'' ''linkedin'' ''2024-01-10'' '''',
          PostMetrics_init ''p4'' ''ttbp'' ''linkedin'' ''soon'' '''']"
  have kept: "filter_loop fromisoformat_date (63842169600000000 - timedelta_days 7) ?posts \<noteq> Inr []"
    by (simp add: keeps_def published_at_init split_T_def parse_examples timedelta_days_def)
  have "set ?w \<subseteq> set ?m"
    using filter_by_period_props [of fromisoformat_date 63842169600000000 ?posts]
      week_example month_example kept by blast
  with week_example month_example show ?thesis by blast
qed

lemma week_fallback_example:
  "filter_by_period fromisoformat_date 63842169600000000
     [PostMetrics_init ''q1'' ''ttbp'' ''linkedin'' ''2024-01-20'' '''',
      PostMetrics_init ''q2'' ''ttbp'' ''linkedin'' ''2023-11-01'' ''''] ''week''
   = Inr [PostMetrics_init ''q1'' ''ttbp'' ''linkedin'' ''2024-01-20'' '''',
          PostMetrics_init ''q2'' ''ttbp'' ''linkedin'' ''2023-11-01'' '''']"
  unfolding filter_by_period_week
  by (simp add: keeps_def published_at_init split_T_def parse_examples timedelta_days_def)

lemma month_fallback_example:
  "filter_by_period fromisoformat_date 63842169600000000
     [PostMetrics_init ''q1'' ''ttbp'' ''linkedin'' ''2024-01-20'' '''',
      PostMetrics_init ''q2'' ''ttbp'' ''linkedin'' ''2023-11-01'' ''''] ''month''
   = Inr [PostMetrics_init ''q1'' ''ttbp'' ''linkedin'' ''2024-01-20'' '''']"
  unfolding filter_by_period_month
  by (simp add: keeps_def published_at_init split_T_def parse_examples timedelta_days_def)

text \<open>
  Claim C2 as stated fails: on 2024-01-30, with posts of 2024-01-20 and 2023-11-01, the
  pass for \<open>week\<close> keeps nothing and falls back to both posts, while \<open>month\<close> returns
  the first post only.
\<close>

theorem filter_week_exceeds_month:
  "\<not> set (projr (filter_by_period fromisoformat_date 63842169600000000
              [PostMetrics_init ''q1'' ''ttbp'' ''linkedin'' ''2024-01-20'' '''',
               PostMetrics_init ''q2'' ''ttbp'' ''linkedin'' ''2023-11-01'' ''''] ''week''))
      \<subseteq> set (projr (filter_by_period fromisoformat_date 63842169600000000
              [PostMetrics_init ''q1'' ''ttbp'' ''linkedin'' ''2024-01-20'' '''',
               PostMetrics_init ''q2'' ''ttbp'' ''linkedin'' ''2023-11-01'' ''''] ''month''))"
  unfolding week_fallback_example month_fallback_example sum.sel
  by (simp add: PostMetrics_init_def)

section \<open>The history file\<close>

lemma save_to_history_extends:
  "\<exists>new. save_to_history (Entries h) posts = h @ new \<and> set new \<subseteq> set posts
     \<and> (\<forall>p \<in> set new. post_id p \<notin> post_id ` set h)"
  by (auto simp: save_to_history_def Let_def)

lemma save_to_history_idempotent:
  "save_to_history (Entries (save_to_history file posts)) posts = save_to_history file posts"
proof -
  define h where "h = (case file of Entries h \<Rightarrow> h | _ \<Rightarrow> [])"
  define new where "new = filter (\<lambda>p. post_id p \<notin> set (map post_id h)) posts"
  have s: "save_to_history file posts = h @ new"
    by (simp add: save_to_history_def Let_def h_def new_def)
  have "filter (\<lambda>p. post_id p \<notin> set (map post_id (h @ new))) posts = []"
    by (auto simp: new_def filter_empty_conv)
  then show ?thesis unfolding s by (simp add: save_to_history_def Let_def image_Un)
qed

text \<open>
  Claim C9 fails on the code. With no history file and a batch of two posts that share
  the post id \<open>p1\<close>, \<^verbatim>\<open>_save_to_history\<close> writes both: the id occurs twice after the
  append and not at all before. The set of known ids is computed once from the stored
  history and is not extended while the batch is appended.
\<close>

theorem save_to_history_duplicate_in_batch:
  "save_to_history Missing
     [PostMetrics_init ''p1'' ''ttbp'' ''linkedin'' ''2024-01-28'' '''',
      (PostMetrics_init ''p1'' ''ttbp'' ''linkedin'' ''2024-01-28'' '''')\<lparr>likes := 7\<rparr>]
   = [PostMetrics_init ''p1'' ''ttbp'' ''linkedin'' ''2024-01-28'' '''',
      (PostMetrics_init ''p1'' ''ttbp'' ''linkedin'' ''2024-01-28'' '''')\<lparr>likes := 7\<rparr>]
   \<and> length (filter (\<lambda>e. post_id e = ''p1'')
        (save_to_history Missing
          [PostMetrics_init ''p1'' ''ttbp'' ''linkedin'' ''2024-01-28'' '''',
           (PostMetrics_init ''p1'' ''ttbp'' ''linkedin'' ''2024-01-28'' '''')\<lparr>likes := 7\<rparr>])) = 2"
  by (simp add: save_to_history_def PostMetrics_init_def)

section \<open>The overall recommendations\<close>

lemma comparable:
  "- (5 / 10) \<le> d \<Longrightarrow> d \<le> 5 / 10 \<Longrightarrow>
   suggestion_for fmt d t = ''Comparable performance '' @ em_dash
          @ '' differentiate by doubling down on unique angles''"
  by (simp add: suggestion_for_def)

text \<open>
  Claim C3 fails on the code. With one post of engagement rate 2 and two competitors of
  average engagement rates 2 and 2.2, both competitors get the suggestion
  \<open>Comparable performance\<close>, and the overall recommendations hold it twice: the loop over
  the competitors tests \<^verbatim>\<open>seen_recs\<close> but never adds to it.
\<close>

theorem overall_recommendations_repeats_suggestion:
  "overall_recommendations []
     (compare_competitors fmt_1f
        [(PostMetrics_init ''p1'' ''ttbp'' ''linkedin'' ''2024-01-28'' '''')\<lparr>engagement_rate := 2\<rparr>]
        [\<lparr> c_name = Some ''A'', c_platform = Some ''linkedin'', c_avg_engagement_rate = Some 2,
            c_top_topic = Some ''ai'', c_top_topic_engagement = Some 3 \<rparr>,
         \<lparr> c_name = Some ''B'', c_platform = Some ''linkedin'', c_avg_engagement_rate = Some (22 / 10),
            c_top_topic = Some ''books'', c_top_topic_engagement = Some 4 \<rparr>])
   = [''[competitor] Comparable performance '' @ em_dash
          @ '' differentiate by doubling down on unique angles'',
      ''[competitor] Comparable performance '' @ em_dash
          @ '' differentiate by doubling down on unique angles'']"
  by (simp add: overall_recommendations_def compare_competitors_def Let_def mean_def
      PostMetrics_init_def py_round_def round_half_even_def comparable add_suggestion_def)

section \<open>The record normalizer\<close>

lemma rate_and_score_fields:
  "\<exists>q. rate_and_score p = Inr q \<and> platform q = platform p \<and> niche q = niche p
     \<and> impressions q = impressions p \<and> reach q = reach p \<and> likes q = likes p
     \<and> comments q = comments p \<and> shares q = shares p \<and> saves q = saves p
     \<and> clicks q = clicks p \<and> post_id q = post_id p"
proof -
  let ?base = "if impressions p > 0 then impressions p else max (reach p) 1"
  have nz: "?base \<noteq> 0" by (simp add: max_def)
  show ?thesis
    unfolding rate_and_score_def compute_rates_def Let_def rate_Inr [OF nz]
    by (simp add: score_post_def Let_def)
qed

lemma safe_int_malformed: "int_text v = None \<Longrightarrow> safe_int v = 0"
  by (simp add: safe_int_def)

lemma safe_int_default: "safe_int (PInt 0) = 0"
  by code_simp

lemma eval_examples:
  "lower ''TikTok'' = ''tiktok''"
  "safe_int (PInt 500) = 500"
  "safe_int (PStr ''1,200'') = 1200"
  "safe_int (PStr ''abc'') = 0"
  "int_text (PStr ''abc'') = None"
  "safe_int PNone = 0"
  "detect_niche [] = ''ttbp''"
  "extract_hook [] = []"
  by code_simp+

lemma item_get_missing: "entries item k = None \<Longrightarrow> item_get item k d = d"
  by (simp add: item_get_def)

lemma item_get_present: "entries item k = Some v \<Longrightarrow> item_get item k d = v"
  by (simp add: item_get_def)

lemma lower_linkedin: "lower ''linkedin'' = ''linkedin''"
  by code_simp

lemma parse_contentstudio_item_text:
  assumes "item_get item ''message'' (item_get item ''content'' (item_get item ''caption'' (PStr [])))
             = PStr c"
    and "item_get item ''platform'' (item_get item ''social_account_type'' (PStr ''linkedin''))
             = PStr pl"
  shows "parse_contentstudio_item detect_format item =
     rate_and_score
       \<lparr> post_id = py_str (item_get item ''id'' (item_get item ''post_id'' (PStr []))),
         niche = (case niche_entry item of
                    Some n \<Rightarrow> if n \<noteq> [] then n else detect_niche c
                  | None \<Rightarrow> detect_niche c),
         platform = lower pl,
         published_at = py_str (item_get item ''published_at''
                                  (item_get item ''created_at'' (PStr []))),
         content_preview = take 120 c,
         format_type = detect_format c,
         hook_words = extract_hook c,
         impressions = safe_int (item_get item ''impressions'' (item_get item ''reach'' (PInt 0))),
         reach = safe_int (item_get item ''reach'' (PInt 0)),
         likes = safe_int (item_get item ''likes'' (item_get item ''reactions'' (PInt 0))),
         comments = safe_int (item_get item ''comments'' (PInt 0)),
         shares = safe_int (item_get item ''shares'' (item_get item ''reposts'' (PInt 0))),
         saves = safe_int (item_get item ''saves'' (item_get item ''bookmarks'' (PInt 0))),
         clicks = safe_int (item_get item ''link_clicks'' (item_get item ''clicks'' (PInt 0))),
         engagement_rate = 0, comment_rate = 0, save_rate = 0,
         share_rate = 0, click_rate = 0, benchmark_delta = 0,
         composite_score = 0,
         hashtags = (case hashtags_entry item of Some h \<Rightarrow> h | None \<Rightarrow> []),
         post_notes = [] \<rparr>"
  unfolding parse_contentstudio_item_def Let_def assms
  by (simp split: option.splits)

lemma parse_contentstudio_item_fields:
  assumes c: "item_get item ''message'' (item_get item ''content'' (item_get item ''caption'' (PStr [])))
             = PStr c"
    and pl: "item_get item ''platform'' (item_get item ''social_account_type'' (PStr ''linkedin''))
             = PStr pl"
  shows "\<exists>p. parse_contentstudio_item detect_format item = Inr p
     \<and> platform p = lower pl
     \<and> impressions p = safe_int (item_get item ''impressions'' (item_get item ''reach'' (PInt 0)))
     \<and> reach p = safe_int (item_get item ''reach'' (PInt 0))
     \<and> likes p = safe_int (item_get item ''likes'' (item_get item ''reactions'' (PInt 0)))
     \<and> comments p = safe_int (item_get item ''comments'' (PInt 0))
     \<and> shares p = safe_int (item_get item ''shares'' (item_get item ''reposts'' (PInt 0)))
     \<and> saves p = safe_int (item_get item ''saves'' (item_get item ''bookmarks'' (PInt 0)))
     \<and> clicks p = safe_int (item_get item ''link_clicks'' (item_get item ''clicks'' (PInt 0)))"
proof -
  note eq = parse_contentstudio_item_text [OF c pl, of detect_format]
  define r where "r = \<lparr> post_id = py_str (item_get item ''id'' (item_get item ''post_id'' (PStr []))),
         niche = (case niche_entry item of
                    Some n \<Rightarrow> if n \<noteq> [] then n else detect_niche c
                  | None \<Rightarrow> detect_niche c),
         platform = lower pl,
         published_at = py_str (item_get item ''published_at''
                                  (item_get item ''created_at'' (PStr []))),
         content_preview = take 120 c,
         format_type = detect_format c,
         hook_words = extract_hook c,
         impressions = safe_int (item_get item ''impressions'' (item_get item ''reach'' (PInt 0))),
         reach = safe_int (item_get item ''reach'' (PInt 0)),
         likes = safe_int (item_get item ''likes'' (item_get item ''reactions'' (PInt 0))),
         comments = safe_int (item_get item ''comments'' (PInt 0)),
         shares = safe_int (item_get item ''shares'' (item_get item ''reposts'' (PInt 0))),
         saves = safe_int (item_get item ''saves'' (item_get item ''bookmarks'' (PInt 0))),
         clicks = safe_int (item_get item ''link_clicks'' (item_get item ''clicks'' (PInt 0))),
         engagement_rate = 0, comment_rate = 0, save_rate = 0,
         share_rate = 0, click_rate = 0, benchmark_delta = 0,
         composite_score = 0,
         hashtags = (case hashtags_entry item of Some h \<Rightarrow> h | None \<Rightarrow> []),
         post_notes = [] \<rparr>"
  have rf: "platform r = lower pl"
      "impressions r = safe_int (item_get item ''impressions'' (item_get item ''reach'' (PInt 0)))"
      "reach r = safe_int (item_get item ''reach'' (PInt 0))"
      "likes r = safe_int (item_get item ''likes'' (item_get item ''reactions'' (PInt 0)))"
      "comments r = safe_int (item_get item ''comments'' (PInt 0))"
      "shares r = safe_int (item_get item ''shares'' (item_get item ''reposts'' (PInt 0)))"
      "saves r = safe_int (item_get item ''saves'' (item_get item ''bookmarks'' (PInt 0)))"
      "clicks r = safe_int (item_get item ''link_clicks'' (item_get item ''clicks'' (PInt 0)))"
    unfolding r_def by simp_all
  from rate_and_score_fields [of r] obtain p where rs: "rate_and_score r = Inr p"
    and pf: "platform p = platform r" "impressions p = impressions r" "reach p = reach r"
      "likes p = likes r" "comments p = comments r" "shares p = shares r" "saves p = saves r"
      "clicks p = clicks r"
    by blast
  have p: "parse_contentstudio_item detect_format item = Inr p"
    unfolding eq r_def [symmetric] by (rule rs)
  note f = pf [unfolded rf]
  show ?thesis
    by (rule exI [of _ p], intro conjI; rule p f)
qed

text \<open>
  Claim C4, as amended. For every row whose content and platform values are strings, the
  normalizer returns a post, whatever the numeric entries hold: a numeric entry whose
  text is not an integer (\<open>int_text\<close> is \<open>None\<close>) gives the counter 0, and a counter is 0
  when its key and its alternative key are both missing; otherwise the value of the
  alternative key is taken. The platform is the given value in lower case, known or not,
  and \<open>linkedin\<close> when both \<^verbatim>\<open>platform\<close> and \<^verbatim>\<open>social_account_type\<close> are missing.
\<close>

theorem parse_contentstudio_item_coerces:
  assumes c: "item_get item ''message'' (item_get item ''content'' (item_get item ''caption'' (PStr [])))
             = PStr c"
    and pl: "item_get item ''platform'' (item_get item ''social_account_type'' (PStr ''linkedin''))
             = PStr pl"
  shows "\<exists>p. parse_contentstudio_item detect_format item = Inr p
     \<and> platform p = lower pl
     \<and> (entries item ''platform'' = None \<and> entries item ''social_account_type'' = None
          \<longrightarrow> platform p = ''linkedin'')
     \<and> impressions p = safe_int (item_get item ''impressions'' (item_get item ''reach'' (PInt 0)))
     \<and> reach p = safe_int (item_get item ''reach'' (PInt 0))
     \<and> likes p = safe_int (item_get item ''likes'' (item_get item ''reactions'' (PInt 0)))
     \<and> comments p = safe_int (item_get item ''comments'' (PInt 0))
     \<and> shares p = safe_int (item_get item ''shares'' (item_get item ''reposts'' (PInt 0)))
     \<and> saves p = safe_int (item_get item ''saves'' (item_get item ''bookmarks'' (PInt 0)))
     \<and> clicks p = safe_int (item_get item ''link_clicks'' (item_get item ''clicks'' (PInt 0)))
     \<and> (\<forall>v. int_text v = None \<longrightarrow>
           (entries item ''impressions'' = Some v \<longrightarrow> impressions p = 0)
         \<and> (entries item ''reach'' = Some v \<longrightarrow> reach p = 0)
         \<and> (entries item ''likes'' = Some v \<longrightarrow> likes p = 0)
         \<and> (entries item ''comments'' = Some v \<longrightarrow> comments p = 0)
         \<and> (entries item ''shares'' = Some v \<longrightarrow> shares p = 0)
         \<and> (entries item ''saves'' = Some v \<longrightarrow> saves p = 0)
         \<and> (entries item ''link_clicks'' = Some v \<longrightarrow> clicks p = 0))
     \<and> (entries item ''impressions'' = None \<and> entries item ''reach'' = None \<longrightarrow> impressions p = 0)
     \<and> (entries item ''reach'' = None \<longrightarrow> reach p = 0)
     \<and> (entries item ''likes'' = None \<and> entries item ''reactions'' = None \<longrightarrow> likes p = 0)
     \<and> (entries item ''comments'' = None \<longrightarrow> comments p = 0)
     \<and> (entries item ''shares'' = None \<and> entries item ''reposts'' = None \<longrightarrow> shares p = 0)
     \<and> (entries item ''saves'' = None \<and> entries item ''bookmarks'' = None \<longrightarrow> saves p = 0)
     \<and> (entries item ''link_clicks'' = None \<and> entries item ''clicks'' = None \<longrightarrow> clicks p = 0)"
proof -
  from parse_contentstudio_item_fields [OF c pl, of detect_format] obtain p
    where p: "parse_contentstudio_item detect_format item = Inr p"
      and f: "platform p = lower pl"
        "impressions p = safe_int (item_get item ''impressions'' (item_get item ''reach'' (PInt 0)))"
        "reach p = safe_int (item_get item ''reach'' (PInt 0))"
        "likes p = safe_int (item_get item ''likes'' (item_get item ''reactions'' (PInt 0)))"
        "comments p = safe_int (item_get item ''comments'' (PInt 0))"
        "shares p = safe_int (item_get item ''shares'' (item_get item ''reposts'' (PInt 0)))"
        "saves p = safe_int (item_get item ''saves'' (item_get item ''bookmarks'' (PInt 0)))"
        "clicks p = safe_int (item_get item ''link_clicks'' (item_get item ''clicks'' (PInt 0)))"
    by blast
  have plat: "platform p = ''linkedin''"
    if "entries item ''platform'' = None \<and> entries item ''social_account_type'' = None"
  proof -
    from that pl have "pl = ''linkedin''" by (simp add: item_get_def)
    then show ?thesis using f(1) by (simp add: lower_linkedin)
  qed
  have mal: "(entries item ''impressions'' = Some v \<longrightarrow> impressions p = 0)
         \<and> (entries item ''reach'' = Some v \<longrightarrow> reach p = 0)
         \<and> (entries item ''likes'' = Some v \<longrightarrow> likes p = 0)
         \<and> (entries item ''comments'' = Some v \<longrightarrow> comments p = 0)
         \<and> (entries item ''shares'' = Some v \<longrightarrow> shares p = 0)
         \<and> (entries item ''saves'' = Some v \<longrightarrow> saves p = 0)
         \<and> (entries item ''link_clicks'' = Some v \<longrightarrow> clicks p = 0)"
    if "int_text v = None" for v
    using safe_int_malformed [OF that] unfolding f by (simp add: item_get_def)
  have mis: "entries item ''impressions'' = None \<and> entries item ''reach'' = None \<longrightarrow> impressions p = 0"
    "entries item ''reach'' = None \<longrightarrow> reach p = 0"
    "entries item ''likes'' = None \<and> entries item ''reactions'' = None \<longrightarrow> likes p = 0"
    "entries item ''comments'' = None \<longrightarrow> comments p = 0"
    "entries item ''shares'' = None \<and> entries item ''reposts'' = None \<longrightarrow> shares p = 0"
    "entries item ''saves'' = None \<and> entries item ''bookmarks'' = None \<longrightarrow> saves p = 0"
    "entries item ''link_clicks'' = None \<and> entries item ''clicks'' = None \<longrightarrow> clicks p = 0"
    unfolding f by (simp_all add: item_get_def safe_int_default)
  show ?thesis
    by (rule exI [of _ p], intro conjI;
        (rule p f mis | (rule impI, rule plat, assumption)
          | (intro allI impI, rule mal, assumption)))
qed

lemma row_malformed_entries:
  "item_get row_malformed ''message''
     (item_get row_malformed ''content'' (item_get row_malformed ''caption'' (PStr []))) = PStr ''hello''"
  "item_get row_malformed ''platform''
     (item_get row_malformed ''social_account_type'' (PStr ''linkedin'')) = PStr ''linkedin''"
  "entries row_malformed ''platform'' = None"
  "entries row_malformed ''social_account_type'' = None"
  "entries row_malformed ''impressions'' = Some (PStr ''abc'')"
  "entries row_malformed ''reach'' = None"
  "item_get row_malformed ''likes'' (item_get row_malformed ''reactions'' (PInt 0)) = PStr ''1,200''"
  "item_get row_malformed ''comments'' (PInt 0) = PNone"
  by (simp_all add: row_malformed_def item_get_def)

text \<open>
  The row \<open>row_malformed\<close>: impressions \<open>abc\<close> and comments \<^verbatim>\<open>null\<close> become 0, likes
  \<open>1,200\<close> become 1200, the missing reach is 0 and the missing platform is \<open>linkedin\<close>.
\<close>

theorem parse_contentstudio_item_coerces_witness:
  "\<exists>p. parse_contentstudio_item (\<lambda>c. ''narrative'') row_malformed = Inr p
     \<and> platform p = ''linkedin'' \<and> impressions p = 0 \<and> reach p = 0
     \<and> likes p = 1200 \<and> comments p = 0"
proof -
  from parse_contentstudio_item_coerces
         [OF row_malformed_entries(1) row_malformed_entries(2), of "\<lambda>c. ''narrative''"]
  obtain p where p: "parse_contentstudio_item (\<lambda>c. ''narrative'') row_malformed = Inr p"
    and plat: "entries row_malformed ''platform'' = None
                 \<and> entries row_malformed ''social_account_type'' = None
               \<longrightarrow> platform p = ''linkedin''"
    and likes: "likes p = safe_int (item_get row_malformed ''likes''
                                      (item_get row_malformed ''reactions'' (PInt 0)))"
    and comments: "comments p = safe_int (item_get row_malformed ''comments'' (PInt 0))"
    and mal: "\<forall>v. int_text v = None \<longrightarrow>
           (entries row_malformed ''impressions'' = Some v \<longrightarrow> impressions p = 0)
         \<and> (entries row_malformed ''reach'' = Some v \<longrightarrow> reach p = 0)
         \<and> (entries row_malformed ''likes'' = Some v \<longrightarrow> likes p = 0)
         \<and> (entries row_malformed ''comments'' = Some v \<longrightarrow> comments p = 0)
         \<and> (entries row_malformed ''shares'' = Some v \<longrightarrow> shares p = 0)
         \<and> (entries row_malformed ''saves'' = Some v \<longrightarrow> saves p = 0)
         \<and> (entries row_malformed ''link_clicks'' = Some v \<longrightarrow> clicks p = 0)"
    and mis: "entries row_malformed ''reach'' = None \<longrightarrow> reach p = 0"
    by (elim exE conjE) (rule that, assumption+)
  from plat have 1: "platform p = ''linkedin''"
    by (simp add: row_malformed_entries(3,4))
  from mal [rule_format, OF eval_examples(5)] have 2: "impressions p = 0"
    by (simp add: row_malformed_entries(5))
  from mis have 3: "reach p = 0"
    by (simp add: row_malformed_entries(6))
  from likes have 4: "likes p = 1200"
    by (simp only: row_malformed_entries(7) eval_examples(3))
  from comments have 5: "comments p = 0"
    by (simp only: row_malformed_entries(8) eval_examples(6))
  from p 1 2 3 4 5 show ?thesis by blast
qed

lemma row_tiktok_entries:
  "item_get row_tiktok ''message''
     (item_get row_tiktok ''content'' (item_get row_tiktok ''caption'' (PStr []))) = PStr ''hello''"
  "item_get row_tiktok ''platform''
     (item_get row_tiktok ''social_account_type'' (PStr ''linkedin'')) = PStr ''TikTok''"
  "item_get row_tiktok ''impressions'' (item_get row_tiktok ''reach'' (PInt 0)) = PInt 500"
  "entries row_tiktok ''impressions'' = None"
  by (simp_all add: row_tiktok_def item_get_def)

lemma tiktok_not_linkedin: "''tiktok'' \<noteq> ''linkedin''"
  by simp

text \<open>
  Claim C4 as stated fails: the row \<open>row_tiktok\<close> has the unknown platform \<open>TikTok\<close>, and
  the post has the platform \<open>tiktok\<close>, not \<open>linkedin\<close>; its impressions are missing, and
  the post has the 500 of the reach, not 0.
\<close>

theorem parse_contentstudio_item_keeps_unknown_platform:
  "\<exists>p. parse_contentstudio_item (\<lambda>c. ''narrative'') row_tiktok = Inr p
     \<and> platform p = ''tiktok'' \<and> platform p \<noteq> ''linkedin''
     \<and> entries row_tiktok ''impressions'' = None \<and> impressions p = 500"
proof -
  from parse_contentstudio_item_fields
         [OF row_tiktok_entries(1) row_tiktok_entries(2), of "\<lambda>c. ''narrative''"]
  obtain p where p: "parse_contentstudio_item (\<lambda>c. ''narrative'') row_tiktok = Inr p"
    and plat: "platform p = lower ''TikTok''"
    and imp: "impressions p = safe_int (item_get row_tiktok ''impressions''
                                          (item_get row_tiktok ''reach'' (PInt 0)))"
    by blast
  from plat have 1: "platform p = ''tiktok''"
    by (simp only: eval_examples(1))
  from 1 have 2: "platform p \<noteq> ''linkedin''"
    by (simp only: tiktok_not_linkedin not_False_eq_True)
  from imp have 3: "impressions p = 500"
    by (simp only: row_tiktok_entries(3) eval_examples(2))
  from p 1 2 3 row_tiktok_entries(4) show ?thesis by blast
qed

end
